theory Spec2Isabelle
  imports Main "HOL-Library.Sublist"
begin

section \<open>JavaScript values, errors and string primitives\<close>

text \<open>
  The build step is the single script \<^verbatim>\<open>unity-build.ts\<close>. Its values are strings, booleans and
  \<^verbatim>\<open>undefined\<close>; an enum member is a number. A string is a list of code units; only code
  units below 256 are represented, which covers every literal of the script.
\<close>

datatype jsval = Undefined | Num nat | Str string

text \<open>
  A thrown value. \<^verbatim>\<open>Error\<close> is what the script and the libraries throw with a message of
  their own; \<^verbatim>\<open>TypeError\<close> is what the engine throws when a property of \<^verbatim>\<open>undefined\<close>
  is read (its text is the engine's, the one given here is V8's). The texts of the
  libraries' errors are indicative, written after their English resources with the
  values the model has at hand.
\<close>

datatype error = Error string | TypeError string

fun message :: "error \<Rightarrow> string" where
  "message (Error m) = m"
| "message (TypeError m) = m"

definition digit :: "nat \<Rightarrow> char" where
  "digit d = char_of (48 + d)"

fun decimal :: "nat \<Rightarrow> string" where
  "decimal n = (if n < 10 then [digit n] else decimal (n div 10) @ [digit (n mod 10)])"

declare decimal.simps [simp del]

text \<open>The property key a value is converted to when it indexes an object.\<close>

fun toPropertyKey :: "jsval \<Rightarrow> string" where
  "toPropertyKey Undefined = ''undefined''"
| "toPropertyKey (Num n) = decimal n"
| "toPropertyKey (Str s) = s"

text \<open>A template literal \<^verbatim>\<open>`${x}`\<close> around a value that is a string or undefined.\<close>

fun template :: "string option \<Rightarrow> string" where
  "template None = ''undefined''"
| "template (Some s) = s"

fun ofOption :: "string option \<Rightarrow> jsval" where
  "ofOption None = Undefined"
| "ofOption (Some s) = Str s"

text \<open>\<^verbatim>\<open>String.prototype.trim\<close>: white space and line terminators below 256.\<close>

definition isWhiteSpace :: "char \<Rightarrow> bool" where
  "isWhiteSpace c \<longleftrightarrow> (of_char c :: nat) \<in> set [9, 10, 11, 12, 13, 32, 160]"

definition trim :: "string \<Rightarrow> string" where
  "trim s = rev (dropWhile isWhiteSpace (rev (dropWhile isWhiteSpace s)))"

text \<open>\<^verbatim>\<open>s.split(c)\<close> for a one-character separator: never an empty array.\<close>

fun js_split :: "char \<Rightarrow> string \<Rightarrow> string list" where
  "js_split c [] = [[]]"
| "js_split c (x # xs) =
     (if x = c then [] # js_split c xs
      else (case js_split c xs of [] \<Rightarrow> [[x]] | f # fs \<Rightarrow> (x # f) # fs))"

text \<open>\<^verbatim>\<open>a[i]\<close> on an array: \<^verbatim>\<open>undefined\<close> (None) out of range.\<close>

definition at_index :: "'a list \<Rightarrow> nat \<Rightarrow> 'a option" where
  "at_index xs i = (if i < length xs then Some (xs ! i) else None)"

text \<open>\<^verbatim>\<open>s.indexOf(m)\<close>: the first position where \<open>m\<close> starts, or \<open>-1\<close>.\<close>

fun indexOf :: "string \<Rightarrow> string \<Rightarrow> int" where
  "indexOf [] m = (if m = [] then 0 else - 1)"
| "indexOf (x # xs) m =
     (if prefix m (x # xs) then 0
      else (let i = indexOf xs m in if i < 0 then - 1 else i + 1))"

text \<open>\<^verbatim>\<open>s.substr(start, length)\<close> and \<^verbatim>\<open>s.substr(start)\<close> for non-negative arguments.\<close>

definition substr :: "string \<Rightarrow> nat \<Rightarrow> nat \<Rightarrow> string" where
  "substr s start len = take len (drop start s)"

definition substr_from :: "string \<Rightarrow> nat \<Rightarrow> string" where
  "substr_from s start = drop start s"

text \<open>
  \<^verbatim>\<open>toUpperCase\<close> on the letters of ASCII. The script only compares the outcome with
  \<^verbatim>\<open>TRUE\<close>, and no other code unit below 256 becomes one of these four letters.
\<close>

definition toUpperChar :: "char \<Rightarrow> char" where
  "toUpperChar c =
     (let n = (of_char c :: nat) in if 97 \<le> n \<and> n \<le> 122 then char_of (n - 32) else c)"

definition toUpperCase :: "string \<Rightarrow> string" where
  "toUpperCase s = map toUpperChar s"

section \<open>The host, the pipeline and the file system\<close>

text \<open>
  A location is a resolved absolute path, as the list of its components. How a path
  string and the working directory give a location is the host's business
  (\<open>path_resolve\<close>), as is \<^verbatim>\<open>path.join\<close>.
\<close>

type_synonym location = "string list"

datatype node = Dir | File string

type_synonym filesystem = "location \<Rightarrow> node option"

text \<open>A call on the tool runner: \<^verbatim>\<open>.arg(v)\<close> or \<^verbatim>\<open>.line(v)\<close>, with the value passed.\<close>

datatype arg_call = Arg jsval | Line jsval

record UnityBuildConfiguration =
  outputFileName :: "string option"
  developmentBuild :: bool
  buildScenes :: "string option"
  buildTarget :: jsval
  projectPath :: "string option"
  unityVersion :: string

text \<open>
  Everything the run reads and does not change: \<^verbatim>\<open>process.platform\<close>, \<^verbatim>\<open>path.join\<close>, the
  task inputs, the one environment variable read, and the external editor, which
  \<^verbatim>\<open>execSync\<close> runs on the file system and which may throw.

  Two searches of the libraries are the host's as well, since their rules change with the
  platform and with the version of the library: \<open>shell_cd\<close> is the shell's \<^verbatim>\<open>cd\<close> (from
  the disk, the working directory and the argument to the new working directory, or to
  the shell's error text), and \<open>locate\<close> is the lookup of an executable by
  \<^verbatim>\<open>which\<close> (rooted paths, \<^verbatim>\<open>PATH\<close>, \<^verbatim>\<open>PATHEXT\<close>, mode bits).

  Three parts of the repository the script imports are not among the sources and are
  parameters here: the object of the enum \<^verbatim>\<open>UnityBuildTarget\<close> (property key to value; a
  numeric enum maps names to numbers and numbers back to names), and the two functions of
  \<^verbatim>\<open>UnityBuildScriptHelper\<close>.
\<close>

record host =
  platform :: string
  path_join :: "string list \<Rightarrow> string"
  path_resolve :: "location \<Rightarrow> string \<Rightarrow> location"
  inputs :: "string \<Rightarrow> string option"
  UNITYHUB_EDITORS_FOLDER_LOCATION :: "string option"
  UnityBuildTarget :: "string \<Rightarrow> jsval"
  getBuildOutputDirectory :: "jsval \<Rightarrow> string"
  getUnityEditorBuildScriptContent :: "UnityBuildConfiguration \<Rightarrow> string"
  editor :: "string \<Rightarrow> arg_call list \<Rightarrow> filesystem \<Rightarrow> error option \<times> filesystem"
  shell_cd :: "filesystem \<Rightarrow> location \<Rightarrow> string \<Rightarrow> string + location"
  locate :: "filesystem \<Rightarrow> location \<Rightarrow> string \<Rightarrow> string option"

datatype TaskResult = Succeeded | Failed

text \<open>
  What the run changes: the pipeline variables, the file system, the working directory,
  the processes launched (tool path and calls on the runner), the task result.
\<close>

record state =
  variables :: "string \<Rightarrow> string option"
  files :: filesystem
  cwd :: location
  launched :: "(string \<times> arg_call list) list"
  result :: "(TaskResult \<times> string) option"

text \<open>A stage either throws or returns a value, and leaves a state behind in both cases.\<close>

type_synonym 'a task = "state \<Rightarrow> (error + 'a) \<times> state"

definition succeed :: "'a \<Rightarrow> 'a task" where
  "succeed x s = (Inr x, s)"

definition throw :: "error \<Rightarrow> 'a task" where
  "throw e s = (Inl e, s)"

definition thenDo :: "'a task \<Rightarrow> ('a \<Rightarrow> 'b task) \<Rightarrow> 'b task" where
  "thenDo m f s = (case m s of (Inl e, s') \<Rightarrow> (Inl e, s') | (Inr x, s') \<Rightarrow> f x s')"

definition lift :: "(state \<Rightarrow> error + 'a) \<Rightarrow> 'a task" where
  "lift f s = (f s, s)"

subsection \<open>The task library\<close>

text \<open>
  \<^verbatim>\<open>tl.getInput(name, required)\<close>: the input or \<^verbatim>\<open>undefined\<close>; throws when a required
  input is missing or empty. The inputs of the host are the values as the library hands
  them out.
\<close>

definition getInput :: "host \<Rightarrow> string \<Rightarrow> bool \<Rightarrow> error + string option" where
  "getInput h name required =
     (if required \<and> (inputs h name = None \<or> inputs h name = Some [])
      then Inl (Error (''Input required: '' @ name))
      else Inr (inputs h name))"

text \<open>\<^verbatim>\<open>tl.getBoolInput(name)\<close>: whether the input, in upper case, is \<^verbatim>\<open>TRUE\<close>.\<close>

definition getBoolInput :: "host \<Rightarrow> string \<Rightarrow> bool" where
  "getBoolInput h name =
     (toUpperCase (case inputs h name of None \<Rightarrow> [] | Some v \<Rightarrow> v) = ''TRUE'')"

text \<open>\<^verbatim>\<open>tl.getPathInput(name)\<close> with neither \<^verbatim>\<open>required\<close> nor \<^verbatim>\<open>check\<close>: the input as it is.\<close>

definition getPathInput :: "host \<Rightarrow> string \<Rightarrow> string option" where
  "getPathInput h name = inputs h name"

definition getVariable :: "state \<Rightarrow> string \<Rightarrow> string option" where
  "getVariable s name = variables s name"

definition setVariable :: "string \<Rightarrow> string \<Rightarrow> unit task" where
  "setVariable name val s = (Inr (), s\<lparr>variables := (variables s)(name \<mapsto> val)\<rparr>)"

definition setResult :: "TaskResult \<Rightarrow> string \<Rightarrow> state \<Rightarrow> state" where
  "setResult r msg s = s\<lparr>result := Some (r, msg)\<rparr>"

definition exist :: "host \<Rightarrow> state \<Rightarrow> string \<Rightarrow> bool" where
  "exist h s p \<longleftrightarrow> files s (path_resolve h (cwd s) p) \<noteq> None"

text \<open>\<^verbatim>\<open>tl.checkPath(p, name)\<close>: throws unless \<open>p\<close> is non-empty and exists.\<close>

definition checkPath :: "host \<Rightarrow> string \<Rightarrow> string \<Rightarrow> unit task" where
  "checkPath h p name s =
     (if p = [] \<or> \<not> exist h s p
      then (Inl (Error (''Not found '' @ name @ '': '' @ p)), s)
      else (Inr (), s))"

text \<open>
  \<^verbatim>\<open>tl.mkdirP(p)\<close> walks up from \<open>p\<close> until something exists, stacking the missing
  directories; it throws when what exists is a file, or when nothing exists up to the
  root, and creates the stacked directories otherwise. The walk takes the location
  reversed, the last component first.
\<close>

fun missing_dirs :: "filesystem \<Rightarrow> location \<Rightarrow> error + location list" where
  "missing_dirs fs [] =
     (case fs [] of
        Some Dir \<Rightarrow> Inr []
      | Some (File _) \<Rightarrow> Inl (Error ''Unable to create directory. Conflicting file exists'')
      | None \<Rightarrow> Inl (Error ''Unable to create directory. Root directory or share does not exist''))"
| "missing_dirs fs (x # r) =
     (case fs (rev (x # r)) of
        Some Dir \<Rightarrow> Inr []
      | Some (File _) \<Rightarrow> Inl (Error ''Unable to create directory. Conflicting file exists'')
      | None \<Rightarrow>
          (case missing_dirs fs r of
             Inl e \<Rightarrow> Inl e
           | Inr stack \<Rightarrow> Inr (rev (x # r) # stack)))"

definition make_dirs :: "location list \<Rightarrow> filesystem \<Rightarrow> filesystem" where
  "make_dirs stack fs = (\<lambda>l. if l \<in> set stack then Some Dir else fs l)"

definition mkdirP :: "host \<Rightarrow> string \<Rightarrow> unit task" where
  "mkdirP h p s =
     (if p = [] then (Inl (Error ''p not supplied''), s)
      else (case missing_dirs (files s) (rev (path_resolve h (cwd s) p)) of
              Inl e \<Rightarrow> (Inl e, s)
            | Inr stack \<Rightarrow> (Inr (), s\<lparr>files := make_dirs stack (files s)\<rparr>)))"

text \<open>
  \<^verbatim>\<open>tl.cd(p)\<close>: nothing when \<open>p\<close> is \<^verbatim>\<open>undefined\<close> or empty; otherwise the shell's \<^verbatim>\<open>cd\<close>,
  whose error is thrown.
\<close>

definition cd :: "host \<Rightarrow> string option \<Rightarrow> unit task" where
  "cd h p s =
     (case p of
        None \<Rightarrow> (Inr (), s)
      | Some d \<Rightarrow>
          (if d = [] then (Inr (), s)
           else (case shell_cd h (files s) (cwd s) d of
                   Inl failure \<Rightarrow> (Inl (Error (''Failed cd: '' @ failure)), s)
                 | Inr l \<Rightarrow> (Inr (), s\<lparr>cwd := l\<rparr>))))"

text \<open>
  \<^verbatim>\<open>tl.which(tool, true)\<close>: what the host's lookup finds, which is never a file that is
  not there; and \<^verbatim>\<open>tl.tool(toolPath)\<close>, the constructor of the tool runner, which throws on
  an empty path and when the tool is not found, and holds the path found.
\<close>

definition which :: "host \<Rightarrow> state \<Rightarrow> string \<Rightarrow> string option" where
  "which h s tool =
     (case locate h (files s) (cwd s) tool of
        None \<Rightarrow> None
      | Some found \<Rightarrow>
          (case files s (path_resolve h (cwd s) found) of
             Some (File _) \<Rightarrow> Some found
           | _ \<Rightarrow> None))"

definition tl_tool :: "host \<Rightarrow> string \<Rightarrow> string task" where
  "tl_tool h toolPath s =
     (if toolPath = []
      then (Inl (Error ''Parameter 'toolPath' cannot be null or empty.''), s)
      else (case which h s toolPath of
              None \<Rightarrow>
                (Inl (Error (''Unable to locate executable file: '' @ toolPath)), s)
            | Some found \<Rightarrow> (Inr found, s)))"

text \<open>
  \<^verbatim>\<open>tl.writeFile(file, data)\<close>: creates or overwrites a file in an existing directory;
  throws on a directory, or when the parent is missing.
\<close>

definition writeFile :: "host \<Rightarrow> string \<Rightarrow> string \<Rightarrow> unit task" where
  "writeFile h file data s =
     (let l = path_resolve h (cwd s) file in
      if files s l = Some Dir
      then (Inl (Error (''EISDIR: illegal operation on a directory, open '' @ file)), s)
      else if l = [] \<or> files s (butlast l) \<noteq> Some Dir
      then (Inl (Error (''ENOENT: no such file or directory, open '' @ file)), s)
      else (Inr (), s\<lparr>files := (files s)(l \<mapsto> File data)\<rparr>))"

subsection \<open>The file-system library\<close>

text \<open>\<^verbatim>\<open>fs.removeSync(p)\<close>: removes \<open>p\<close> and everything below it; nothing when \<open>p\<close> is absent.\<close>

definition removeSync :: "host \<Rightarrow> string \<Rightarrow> unit task" where
  "removeSync h p s =
     (let l = path_resolve h (cwd s) p in
      (Inr (), s\<lparr>files := (\<lambda>k. if prefix l k then None else files s k)\<rparr>))"

text \<open>\<^verbatim>\<open>fs.readFileSync(p, 'utf8')\<close>: the content of a file; throws when there is none.\<close>

definition readFileSync :: "host \<Rightarrow> state \<Rightarrow> string \<Rightarrow> error + string" where
  "readFileSync h s p =
     (case files s (path_resolve h (cwd s) p) of
        Some (File content) \<Rightarrow> Inr content
      | Some Dir \<Rightarrow> Inl (Error ''EISDIR: illegal operation on a directory, read'')
      | None \<Rightarrow>
          Inl (Error (''ENOENT: no such file or directory, open '' @
                 [CHR 0x27] @ p @ [CHR 0x27])))"

section \<open>The script\<close>

definition bindE :: "error + 'a \<Rightarrow> ('a \<Rightarrow> error + 'b) \<Rightarrow> error + 'b" where
  "bindE r f = (case r of Inl e \<Rightarrow> Inl e | Inr x \<Rightarrow> f x)"

text \<open>
  Lines 108 to 117 of \<^verbatim>\<open>getBuildConfiguration\<close>, on the content read from
  \<^verbatim>\<open>ProjectVersion.txt\<close>: \<^verbatim>\<open>.split(':')[1].trim()\<close>, which throws when there is no second
  field, then the cut at \<^verbatim>\<open>m_EditorVersionWithRevision\<close>.
\<close>

definition editorVersion :: "string \<Rightarrow> error + string" where
  "editorVersion content =
     (case at_index (js_split CHR '':'' content) 1 of
        None \<Rightarrow> Inl (TypeError ''Cannot read properties of undefined (reading 'trim')'')
      | Some field \<Rightarrow>
          (let unityVersion = trim field;
               revisionVersionIndex = indexOf unityVersion ''m_EditorVersionWithRevision''
           in if revisionVersionIndex > - 1
              then Inr (trim (substr unityVersion 0 (nat revisionVersionIndex)))
              else Inr unityVersion))"

definition getBuildConfiguration :: "host \<Rightarrow> state \<Rightarrow> error + UnityBuildConfiguration" where
  "getBuildConfiguration h s =
     bindE (getInput h ''outputFileName'' False) (\<lambda>outputFileName'.
     bindE (getInput h ''buildScenes'' False) (\<lambda>buildScenes'.
     bindE (getInput h ''buildTarget'' True) (\<lambda>targetInput.
     (let buildTarget' = UnityBuildTarget h (toPropertyKey (ofOption targetInput));
          projectPath' = getPathInput h ''unityProjectPath''
      in
     bindE (readFileSync h s
              (path_join h [template projectPath', ''ProjectSettings'', ''ProjectVersion.txt'']))
       (\<lambda>content.
     bindE (editorVersion content) (\<lambda>unityVersion'.
       if unityVersion' = []
       then Inl (Error ''Failed to get project version from ProjectVersion.txt file.'')
       else if platform h \<noteq> ''win32'' \<and> buildTarget' = UnityBuildTarget h ''WindowsStoreApps''
       then Inl (Error ''Cannot build an UWP project on a Mac.'')
       else Inr \<lparr>outputFileName = outputFileName',
                 developmentBuild = getBoolInput h ''developmentBuild'',
                 buildScenes = buildScenes',
                 buildTarget = buildTarget',
                 projectPath = projectPath',
                 unityVersion = unityVersion'\<rparr>))))))"

definition getUnityEditorsPath :: "host \<Rightarrow> error + string" where
  "getUnityEditorsPath h =
     bindE (getInput h ''unityEditorsPathMode'' True) (\<lambda>editorsPathMode.
       if editorsPathMode = Some ''unityHub''
       then Inr (if platform h = ''win32''
                 then path_join h [''C:'', ''Program Files'', ''Unity'', ''Hub'', ''Editor'']
                 else path_join h [''/'', ''Applications'', ''Unity'', ''Hub'', ''Editor''])
       else if editorsPathMode = Some ''environmentVariable''
       then (case UNITYHUB_EDITORS_FOLDER_LOCATION h of
               None \<Rightarrow> Inl (Error
                 ''Expected UNITYHUB_EDITORS_FOLDER_LOCATION environment variable to be set!'')
             | Some environmentVariablePath \<Rightarrow>
                 if environmentVariablePath = []
                 then Inl (Error
                   ''Expected UNITYHUB_EDITORS_FOLDER_LOCATION environment variable to be set!'')
                 else Inr environmentVariablePath)
       else bindE (getInput h ''customUnityEditorsPath'' False) (\<lambda>customPath.
              case customPath of
                None \<Rightarrow> Inl (Error
                  ''Expected custom editors folder location to be set. Please the task configuration.'')
              | Some p \<Rightarrow>
                  if p = []
                  then Inl (Error
                    ''Expected custom editors folder location to be set. Please the task configuration.'')
                  else Inr p))"

definition setResultFailed :: "string \<Rightarrow> state \<Rightarrow> state" where
  "setResultFailed msg s = setResult Failed msg s"

definition setResultSucceeded :: "string \<Rightarrow> state \<Rightarrow> state" where
  "setResultSucceeded msg s = setResult Succeeded msg s"

subsection \<open>The stages of \<^verbatim>\<open>run\<close>\<close>

text \<open>Lines 17 to 19.\<close>

definition unityEditorDirectory :: "host \<Rightarrow> string \<Rightarrow> UnityBuildConfiguration \<Rightarrow> string" where
  "unityEditorDirectory h unityEditorsPath cfg =
     (if platform h = ''win32''
      then path_join h [unityEditorsPath, unityVersion cfg, ''Editor'']
      else path_join h [unityEditorsPath, unityVersion cfg])"

text \<open>Lines 26 and 27.\<close>

definition fullBuildOutputPath :: "host \<Rightarrow> UnityBuildConfiguration \<Rightarrow> string" where
  "fullBuildOutputPath h cfg =
     path_join h [template (projectPath cfg), getBuildOutputDirectory h (buildTarget cfg)]"

text \<open>
  Lines 24 to 34: the output directory is removed when a clean build is asked for,
  created, and checked. What line 25 read is returned for the lines that follow.
\<close>

definition recreateOutputDirectory ::
  "host \<Rightarrow> UnityBuildConfiguration \<Rightarrow> string option task" where
  "recreateOutputDirectory h cfg s =
     (let cleanBuild = getVariable s ''Build.Repository.Clean'';
          repositoryLocalPath = getVariable s ''Build.Repository.LocalPath'';
          full = fullBuildOutputPath h cfg
      in thenDo (if cleanBuild = Some ''true'' then removeSync h full else succeed ()) (\<lambda>_.
         thenDo (mkdirP h full) (\<lambda>_.
         thenDo (checkPath h full ''Build Output Directory'') (\<lambda>_.
         succeed repositoryLocalPath))) s)"

text \<open>
  Line 35. It returns the repository root, which the line needs to be a string:
  \<^verbatim>\<open>.length\<close> of \<^verbatim>\<open>undefined\<close> throws.
\<close>

definition setBuildOutputPath ::
  "host \<Rightarrow> UnityBuildConfiguration \<Rightarrow> string option \<Rightarrow> string task" where
  "setBuildOutputPath h cfg repositoryLocalPath =
     (case repositoryLocalPath of
        None \<Rightarrow> throw (TypeError ''Cannot read properties of undefined (reading 'length')'')
      | Some root \<Rightarrow>
          thenDo (setVariable ''buildOutputPath''
                    (substr_from (fullBuildOutputPath h cfg) (length root + 1)))
            (\<lambda>_. succeed root))"

text \<open>Lines 24 to 35, the preparation of the output directory.\<close>

definition prepareOutputDirectory :: "host \<Rightarrow> UnityBuildConfiguration \<Rightarrow> string task" where
  "prepareOutputDirectory h cfg =
     thenDo (recreateOutputDirectory h cfg) (setBuildOutputPath h cfg)"

text \<open>Lines 41 and 42.\<close>

definition unityExecutablePath :: "host \<Rightarrow> string \<Rightarrow> string" where
  "unityExecutablePath h editorDirectory =
     (if platform h = ''win32''
      then path_join h [editorDirectory, ''Unity.exe'']
      else path_join h [editorDirectory, ''Unity.app'', ''Contents'', ''MacOS'', ''Unity''])"

text \<open>Lines 43 to 46, the mandatory arguments.\<close>

definition mandatoryArguments :: "host \<Rightarrow> UnityBuildConfiguration \<Rightarrow> arg_call list" where
  "mandatoryArguments h cfg =
     [Arg (Str ''-batchmode''),
      Arg (Str ''-buildTarget''), Arg (UnityBuildTarget h (toPropertyKey (buildTarget cfg))),
      Arg (Str ''-projectPath''), Arg (ofOption (projectPath cfg))]"

text \<open>Lines 49 to 59, the flags of the default mode.\<close>

definition defaultFlags :: "host \<Rightarrow> arg_call list" where
  "defaultFlags h =
     (if getBoolInput h ''noPackageManager'' then [Arg (Str ''-noUpm'')] else []) @
     (if getBoolInput h ''acceptApiUpdate'' then [Arg (Str ''-accept-apiupdate'')] else []) @
     (if getBoolInput h ''noGraphics'' then [Arg (Str ''-nographics'')] else [])"

text \<open>Lines 65 to 69, the build script written into the project.\<close>

definition injectBuildScript :: "host \<Rightarrow> UnityBuildConfiguration \<Rightarrow> unit task" where
  "injectBuildScript h cfg =
     (let projectAssetsEditorFolderPath =
            path_join h [template (projectPath cfg), ''Assets'', ''Editor'']
      in thenDo (mkdirP h projectAssetsEditorFolderPath) (\<lambda>_.
         thenDo (cd h (Some projectAssetsEditorFolderPath)) (\<lambda>_.
         thenDo (writeFile h ''AzureDevOps.cs'' (getUnityEditorBuildScriptContent h cfg)) (\<lambda>_.
         cd h (projectPath cfg)))))"

text \<open>Lines 74 to 80, the optional log file.\<close>

definition logFileArguments :: "host \<Rightarrow> string \<Rightarrow> arg_call list task" where
  "logFileArguments h repositoryLocalPath =
     thenDo (lift (\<lambda>_. getInput h ''logFileName'' False)) (\<lambda>logFileName.
       case logFileName of
         None \<Rightarrow> succeed []
       | Some name \<Rightarrow>
           if name \<noteq> []
           then (let logFilePath = path_join h [repositoryLocalPath, name]
                 in thenDo (setVariable ''editorLogFilePath'' logFilePath) (\<lambda>_.
                    succeed [Arg (Str ''-logfile''), Arg (Str logFilePath)]))
           else succeed [])"

text \<open>
  Lines 41 to 86: the tool, which line 43 looks for on the disk, and the calls on its
  runner, in order.
\<close>

definition buildCommand ::
  "host \<Rightarrow> UnityBuildConfiguration \<Rightarrow> string \<Rightarrow> string \<Rightarrow> (string \<times> arg_call list) task" where
  "buildCommand h cfg editorDirectory repositoryLocalPath =
     thenDo (tl_tool h (unityExecutablePath h editorDirectory)) (\<lambda>toolPath.
     (let unityCmd = mandatoryArguments h cfg
      in thenDo (lift (\<lambda>_. getInput h ''commandLineArgumentsMode'' True)) (\<lambda>mode.
           if mode = Some ''default''
           then thenDo (injectBuildScript h cfg) (\<lambda>_.
                thenDo (logFileArguments h repositoryLocalPath) (\<lambda>logArgs.
                succeed (toolPath, unityCmd @ defaultFlags h @
                   [Arg (Str ''-executeMethod''), Arg (Str ''AzureDevOps.PerformBuild'')] @
                   logArgs)))
           else thenDo (lift (\<lambda>_. getInput h ''customCommandLineArguments'' False))
                  (\<lambda>custom. succeed (toolPath, unityCmd @ [Line (ofOption custom)])))))"

text \<open>Line 92: the editor runs; what it returns is not looked at.\<close>

definition execSync :: "host \<Rightarrow> string \<times> arg_call list \<Rightarrow> unit task" where
  "execSync h cmd s =
     (case editor h (fst cmd) (snd cmd) (files s) of
        (failure, fs') \<Rightarrow>
          (let s' = s\<lparr>files := fs', launched := launched s @ [cmd]\<rparr>
           in case failure of None \<Rightarrow> (Inr (), s') | Some e \<Rightarrow> (Inl e, s')))"

text \<open>Lines 13 to 94, the body of the \<^verbatim>\<open>try\<close>.\<close>

definition runBody :: "host \<Rightarrow> unit task" where
  "runBody h =
     thenDo (lift (getBuildConfiguration h)) (\<lambda>unityBuildConfiguration.
     thenDo (lift (\<lambda>_. getUnityEditorsPath h)) (\<lambda>unityEditorsPath.
     (let editorDirectory = unityEditorDirectory h unityEditorsPath unityBuildConfiguration
      in
     thenDo (checkPath h editorDirectory ''Unity Editor Directory'') (\<lambda>_.
     thenDo (prepareOutputDirectory h unityBuildConfiguration) (\<lambda>repositoryLocalPath.
     thenDo (buildCommand h unityBuildConfiguration editorDirectory repositoryLocalPath)
       (\<lambda>unityCmd.
     execSync h unityCmd))))))"

text \<open>Lines 11 to 98: the \<^verbatim>\<open>catch\<close> is the only place where a result is set.\<close>

definition run :: "host \<Rightarrow> state \<Rightarrow> state" where
  "run h s =
     (case runBody h s of
        (Inl err, s') \<Rightarrow> setResultFailed (message err) s'
      | (Inr _, s') \<Rightarrow> s')"

section \<open>A POSIX host\<close>

text \<open>
  \<^verbatim>\<open>path.join\<close> and path resolution as Node has them on POSIX hosts, for running the
  script on concrete inputs.
\<close>

fun joinWith :: "string \<Rightarrow> string list \<Rightarrow> string" where
  "joinWith sep [] = []"
| "joinWith sep [x] = x"
| "joinWith sep (x # y # ys) = x @ sep @ joinWith sep (y # ys)"

text \<open>
  The components of a path, normalised: empty components and \<^verbatim>\<open>.\<close> vanish, \<^verbatim>\<open>..\<close> removes
  the component before it, and stays only where nothing is left and the path is
  relative. The components kept so far are held reversed.
\<close>

fun normalizeString :: "bool \<Rightarrow> string list \<Rightarrow> string list \<Rightarrow> string list" where
  "normalizeString allowAboveRoot kept [] = rev kept"
| "normalizeString allowAboveRoot kept (x # xs) =
     (if x = [] \<or> x = ''.'' then normalizeString allowAboveRoot kept xs
      else if x = ''..''
      then (case kept of
              [] \<Rightarrow> normalizeString allowAboveRoot (if allowAboveRoot then [''..''] else []) xs
            | y # ys \<Rightarrow>
                if y = ''..'' then normalizeString allowAboveRoot (''..'' # kept) xs
                else normalizeString allowAboveRoot ys xs)
      else normalizeString allowAboveRoot (x # kept) xs)"

definition posix_normalize :: "string \<Rightarrow> string" where
  "posix_normalize p =
     (if p = [] then ''.''
      else (let isAbsolute = (hd p = CHR ''/'');
                trailingSeparator = (last p = CHR ''/'');
                body = joinWith ''/'' (normalizeString (\<not> isAbsolute) [] (js_split CHR ''/'' p))
            in if body = []
               then (if isAbsolute then ''/'' else if trailingSeparator then ''./'' else ''.'')
               else (if isAbsolute then ''/'' else []) @ body @
                    (if trailingSeparator then ''/'' else [])))"

definition posix_join :: "string list \<Rightarrow> string" where
  "posix_join args =
     (let joined = joinWith ''/'' (filter (\<lambda>a. a \<noteq> []) args)
      in if joined = [] then ''.'' else posix_normalize joined)"

definition posix_resolve :: "location \<Rightarrow> string \<Rightarrow> location" where
  "posix_resolve dir p =
     normalizeString False []
       ((if p \<noteq> [] \<and> hd p = CHR ''/'' then [] else dir) @ js_split CHR ''/'' p)"

text \<open>
  The shell's \<^verbatim>\<open>cd\<close> into a directory that is there, and the lookup of a rooted path.
  Every file of these disks can be run; a relative path with a separator is never found,
  and \<^verbatim>\<open>PATH\<close> is empty.
\<close>

definition posix_cd :: "filesystem \<Rightarrow> location \<Rightarrow> string \<Rightarrow> string + location" where
  "posix_cd fs dir p =
     (case fs (posix_resolve dir p) of
        Some Dir \<Rightarrow> Inr (posix_resolve dir p)
      | Some (File _) \<Rightarrow> Inl (''not a directory: '' @ p)
      | None \<Rightarrow> Inl (''no such file or directory: '' @ p))"

definition posix_locate :: "filesystem \<Rightarrow> location \<Rightarrow> string \<Rightarrow> string option" where
  "posix_locate fs dir tool =
     (if tool \<noteq> [] \<and> hd tool = CHR ''/''
      then (case fs (posix_resolve dir tool) of Some (File _) \<Rightarrow> Some tool | _ \<Rightarrow> None)
      else None)"

text \<open>
  The object of a numeric enum with the given member names, in declaration order: a name
  gives its number, the decimal spelling of a number gives the name back.
\<close>

definition numericEnum :: "string list \<Rightarrow> string \<Rightarrow> jsval" where
  "numericEnum names key =
     (if key \<in> set names then Num (length (takeWhile (\<lambda>n. n \<noteq> key) names))
      else (case find (\<lambda>n. decimal n = key) [0..<length names] of
              Some n \<Rightarrow> Str (names ! n)
            | None \<Rightarrow> Undefined))"

text \<open>A \<^verbatim>\<open>ProjectVersion.txt\<close> as the editor writes it, with its revision line.\<close>

definition versionFile :: string where
  "versionFile = ''m_EditorVersion: 2021.3.1f1'' @ [CHR 0x0A] @
     ''m_EditorVersionWithRevision: 2021.3.1f1 (77a89f25062f)'' @ [CHR 0x0A]"

text \<open>
  A macOS agent: a project under the repository root \<^verbatim>\<open>/repo\<close>, the editor found through
  the hub, the default arguments with a log file, and an editor that returns without
  touching anything.
\<close>

definition example_host :: host where
  "example_host =
     \<lparr>platform = ''darwin'', path_join = posix_join, path_resolve = posix_resolve,
      inputs = map_of
        [(''buildTarget'', ''Android''), (''unityProjectPath'', ''/repo/proj''),
         (''unityEditorsPathMode'', ''unityHub''), (''commandLineArgumentsMode'', ''default''),
         (''noGraphics'', ''true''), (''logFileName'', ''build.log'')],
      UNITYHUB_EDITORS_FOLDER_LOCATION = None,
      UnityBuildTarget = numericEnum [''standalone'', ''Android'', ''WindowsStoreApps''],
      getBuildOutputDirectory = (\<lambda>_. ''Build''),
      getUnityEditorBuildScriptContent = (\<lambda>_. ''script''),
      editor = (\<lambda>tool args fs. (None, fs)),
      shell_cd = posix_cd, locate = posix_locate\<rparr>"

text \<open>
  Its disk: the project with an output directory left by an earlier build, a second
  project outside the repository, and the editor's installation with its executable. A
  clean build is asked for.
\<close>

definition example_state :: state where
  "example_state =
     \<lparr>variables = map_of
        [(''Build.Repository.Clean'', ''true''), (''Build.Repository.LocalPath'', ''/repo'')],
      files = map_of
        [([], Dir), ([''repo''], Dir), ([''repo'', ''proj''], Dir),
         ([''repo'', ''proj'', ''ProjectSettings''], Dir),
         ([''repo'', ''proj'', ''ProjectSettings'', ''ProjectVersion.txt''], File versionFile),
         ([''repo'', ''proj'', ''Build''], Dir),
         ([''repo'', ''proj'', ''Build'', ''old.apk''], File ''old''),
         ([''other''], Dir), ([''other'', ''proj''], Dir),
         ([''other'', ''proj'', ''ProjectSettings''], Dir),
         ([''other'', ''proj'', ''ProjectSettings'', ''ProjectVersion.txt''], File versionFile),
         ([''Applications''], Dir), ([''Applications'', ''Unity''], Dir),
         ([''Applications'', ''Unity'', ''Hub''], Dir),
         ([''Applications'', ''Unity'', ''Hub'', ''Editor''], Dir),
         ([''Applications'', ''Unity'', ''Hub'', ''Editor'', ''2021.3.1f1''], Dir),
         ([''Applications'', ''Unity'', ''Hub'', ''Editor'', ''2021.3.1f1'', ''Unity.app''], Dir),
         ([''Applications'', ''Unity'', ''Hub'', ''Editor'', ''2021.3.1f1'', ''Unity.app'',
           ''Contents''], Dir),
         ([''Applications'', ''Unity'', ''Hub'', ''Editor'', ''2021.3.1f1'', ''Unity.app'',
           ''Contents'', ''MacOS''], Dir),
         ([''Applications'', ''Unity'', ''Hub'', ''Editor'', ''2021.3.1f1'', ''Unity.app'',
           ''Contents'', ''MacOS'', ''Unity''], File ''Mach-O'')],
      cwd = [''repo''], launched = [], result = None\<rparr>"

text \<open>The same disk with a \<^verbatim>\<open>ProjectVersion.txt\<close> that holds the bare version.\<close>

definition example_state_no_colon :: state where
  "example_state_no_colon =
     example_state\<lparr>files := (files example_state)
        ([''repo'', ''proj'', ''ProjectSettings'', ''ProjectVersion.txt''] \<mapsto>
           File ''2021.3.1f1'')\<rparr>"

definition with_input :: "string \<Rightarrow> string \<Rightarrow> host \<Rightarrow> host" where
  "with_input name v h = h\<lparr>inputs := (inputs h)(name \<mapsto> v)\<rparr>"

text \<open>The same agent with arguments of the user's own, and with no log file.\<close>

definition custom_host :: host where
  "custom_host =
     with_input ''commandLineArgumentsMode'' ''custom''
       (with_input ''customCommandLineArguments'' ''-quit -batchmode'' example_host)"

definition no_log_host :: host where
  "no_log_host = example_host\<lparr>inputs := (inputs example_host)(''logFileName'' := None)\<rparr>"

text \<open>
  The same agent with no project path, and the disk on which the script then finds a
  project: it looks in the directory \<^verbatim>\<open>undefined\<close> of the working directory.
\<close>

definition no_project_host :: host where
  "no_project_host = example_host\<lparr>inputs := (inputs example_host)(''unityProjectPath'' := None)\<rparr>"

definition example_state_undefined :: state where
  "example_state_undefined =
     example_state\<lparr>files := (files example_state)
        ([''repo'', ''undefined''] \<mapsto> Dir,
         [''repo'', ''undefined'', ''ProjectSettings''] \<mapsto> Dir,
         [''repo'', ''undefined'', ''ProjectSettings'', ''ProjectVersion.txt''] \<mapsto>
           File versionFile)\<rparr>"

text \<open>The same agent building the project that lies outside the repository.\<close>

definition outside_host :: host where
  "outside_host = with_input ''unityProjectPath'' ''/other/proj'' example_host"

text \<open>The configurations the two projects resolve to.\<close>

definition example_configuration :: UnityBuildConfiguration where
  "example_configuration =
     \<lparr>outputFileName = None, developmentBuild = False, buildScenes = None,
      buildTarget = Num 1, projectPath = Some ''/repo/proj'', unityVersion = ''2021.3.1f1''\<rparr>"

definition outside_configuration :: UnityBuildConfiguration where
  "outside_configuration = example_configuration\<lparr>projectPath := Some ''/other/proj''\<rparr>"

section \<open>The specification's words\<close>

text \<open>
  The text after the first \<^verbatim>\<open>:\<close> of a content, and what the specification says is made of
  a text: cut before the revision marker when it is there, and trimmed.
\<close>

definition afterFirstColon :: "string \<Rightarrow> string" where
  "afterFirstColon content = drop 1 (dropWhile (\<lambda>c. c \<noteq> CHR '':'') content)"

definition cutAtRevisionMarker :: "string \<Rightarrow> string" where
  "cutAtRevisionMarker t =
     (if indexOf t ''m_EditorVersionWithRevision'' > - 1
      then trim (take (nat (indexOf t ''m_EditorVersionWithRevision'')) t)
      else trim t)"

text \<open>The text between the first \<^verbatim>\<open>:\<close> and the next one, or the end.\<close>

definition secondField :: "string \<Rightarrow> string" where
  "secondField content = takeWhile (\<lambda>c. c \<noteq> CHR '':'') (afterFirstColon content)"

text \<open>
  A path is expressed relative to a root when joining the root and it gives the path
  back.
\<close>

definition expressedRelativeTo :: "host \<Rightarrow> string \<Rightarrow> string \<Rightarrow> string \<Rightarrow> bool" where
  "expressedRelativeTo h root rel full \<longleftrightarrow> path_join h [root, rel] = full"

section \<open>What a stage leaves untouched\<close>

definition keeps :: "(state \<Rightarrow> 'o) \<Rightarrow> 'a task \<Rightarrow> bool" where
  "keeps obs m \<longleftrightarrow> (\<forall>s. obs (snd (m s)) = obs s)"

lemma keepsD: "keeps obs m \<Longrightarrow> m s = (r, s') \<Longrightarrow> obs s' = obs s"
  by (metis keeps_def snd_conv)

lemma keeps_succeed: "keeps obs (succeed x)"
  by (simp add: keeps_def succeed_def)

lemma keeps_throw: "keeps obs (throw e)"
  by (simp add: keeps_def throw_def)

lemma keeps_lift: "keeps obs (lift f)"
  by (simp add: keeps_def lift_def)

lemma keeps_thenDo: "keeps obs m \<Longrightarrow> (\<And>x. keeps obs (f x)) \<Longrightarrow> keeps obs (thenDo m f)"
  by (auto simp: keeps_def thenDo_def split: prod.splits sum.splits) (metis snd_conv)+

lemma keeps_if: "keeps obs a \<Longrightarrow> keeps obs b \<Longrightarrow> keeps obs (if c then a else b)"
  by simp

lemma keeps_case_option:
  "keeps obs a \<Longrightarrow> (\<And>x. keeps obs (b x)) \<Longrightarrow> keeps obs (case v of None \<Rightarrow> a | Some x \<Rightarrow> b x)"
  by (cases v) simp_all

lemma keeps_checkPath: "keeps obs (checkPath h p n)"
  by (simp add: keeps_def checkPath_def)

lemma checkPath_state: "checkPath h p n s = (r, s') \<Longrightarrow> s' = s"
  by (auto simp: checkPath_def split: if_splits)

lemma keeps_mkdirP:
  "keeps launched (mkdirP h p)" "keeps result (mkdirP h p)" "keeps variables (mkdirP h p)"
  "keeps cwd (mkdirP h p)"
  by (simp_all add: keeps_def mkdirP_def split: sum.splits)

lemma keeps_removeSync:
  "keeps launched (removeSync h p)" "keeps result (removeSync h p)"
  "keeps variables (removeSync h p)" "keeps cwd (removeSync h p)"
  by (simp_all add: keeps_def removeSync_def Let_def)

lemma keeps_cd:
  "keeps launched (cd h p)" "keeps result (cd h p)" "keeps variables (cd h p)"
  by (simp_all add: keeps_def cd_def split: option.splits sum.splits)

lemma keeps_tl_tool: "keeps obs (tl_tool h p)"
  by (simp add: keeps_def tl_tool_def split: option.splits)

lemma tl_tool_state: "tl_tool h p s = (r, s') \<Longrightarrow> s' = s"
  by (auto simp: tl_tool_def split: if_splits option.splits)

lemma keeps_writeFile:
  "keeps launched (writeFile h f d)" "keeps result (writeFile h f d)"
  "keeps variables (writeFile h f d)"
  by (simp_all add: keeps_def writeFile_def Let_def)

lemma keeps_setVariable:
  "keeps launched (setVariable n v)" "keeps result (setVariable n v)"
  "keeps files (setVariable n v)" "keeps cwd (setVariable n v)"
  by (simp_all add: keeps_def setVariable_def)

lemma keeps_setVariable_other: "k \<noteq> n \<Longrightarrow> keeps (\<lambda>s. variables s k) (setVariable n v)"
  by (simp add: keeps_def setVariable_def)

lemma keeps_execSync:
  "keeps result (execSync h c)" "keeps variables (execSync h c)"
  by (simp_all add: keeps_def execSync_def Let_def split: prod.splits option.splits)

lemmas keeps_intros = keeps_thenDo keeps_if keeps_case_option keeps_succeed keeps_throw keeps_lift
  keeps_checkPath keeps_mkdirP keeps_removeSync keeps_cd keeps_writeFile keeps_setVariable
  keeps_tl_tool

lemma keeps_snd: "keeps obs m \<Longrightarrow> obs (snd (m s)) = obs s"
  by (simp add: keeps_def)

lemma keeps_recreateOutputDirectory:
  "keeps launched (recreateOutputDirectory h cfg)" "keeps result (recreateOutputDirectory h cfg)"
  "keeps cwd (recreateOutputDirectory h cfg)" "keeps variables (recreateOutputDirectory h cfg)"
  unfolding keeps_def recreateOutputDirectory_def Let_def
  by (intro allI keeps_snd keeps_intros)+

lemma keeps_setBuildOutputPath:
  "keeps launched (setBuildOutputPath h cfg v)" "keeps result (setBuildOutputPath h cfg v)"
  "keeps cwd (setBuildOutputPath h cfg v)" "keeps files (setBuildOutputPath h cfg v)"
  unfolding setBuildOutputPath_def
  by (intro keeps_intros)+

lemma keeps_prepareOutputDirectory:
  "keeps launched (prepareOutputDirectory h cfg)" "keeps result (prepareOutputDirectory h cfg)"
  "keeps cwd (prepareOutputDirectory h cfg)"
  unfolding prepareOutputDirectory_def
  by (intro keeps_intros keeps_recreateOutputDirectory keeps_setBuildOutputPath)+

lemma keeps_injectBuildScript:
  "keeps launched (injectBuildScript h cfg)" "keeps result (injectBuildScript h cfg)"
  "keeps variables (injectBuildScript h cfg)"
  unfolding injectBuildScript_def Let_def
  by (intro keeps_intros)+

lemma keeps_logFileArguments:
  "keeps launched (logFileArguments h root)" "keeps result (logFileArguments h root)"
  "keeps files (logFileArguments h root)"
  unfolding logFileArguments_def Let_def
  by (intro keeps_intros)+

lemma keeps_buildCommand:
  "keeps launched (buildCommand h cfg d root)" "keeps result (buildCommand h cfg d root)"
  unfolding buildCommand_def Let_def
  by (intro keeps_intros keeps_injectBuildScript keeps_logFileArguments)+

lemma keeps_runBody: "keeps result (runBody h)"
  unfolding runBody_def Let_def
  by (intro keeps_intros keeps_prepareOutputDirectory keeps_buildCommand keeps_execSync)+

lemma getInput_optional [simp]: "getInput h name False = Inr (inputs h name)"
  by (simp add: getInput_def)

lemma getInput_required:
  "getInput h name True =
     (case inputs h name of
        None \<Rightarrow> Inl (Error (''Input required: '' @ name))
      | Some v \<Rightarrow> if v = [] then Inl (Error (''Input required: '' @ name)) else Inr (Some v))"
  by (simp add: getInput_def split: option.splits)

lemma bindE_simps [simp]: "bindE (Inl e) f = Inl e" "bindE (Inr x) f = f x"
  by (simp_all add: bindE_def)

lemma thenDo_lift_Inl [simp]: "f s = Inl e \<Longrightarrow> thenDo (lift f) g s = (Inl e, s)"
  by (simp add: thenDo_def lift_def)

lemma thenDo_lift_Inr [simp]: "f s = Inr x \<Longrightarrow> thenDo (lift f) g s = g x s"
  by (simp add: thenDo_def lift_def)

lemma run_result:
  "result (run h s) =
     (case fst (runBody h s) of Inl e \<Rightarrow> Some (Failed, message e) | Inr _ \<Rightarrow> result s)"
proof -
  have "result (snd (runBody h s)) = result s"
    by (rule keeps_snd [OF keeps_runBody])
  then show ?thesis
    by (cases "runBody h s")
       (auto simp: run_def setResultFailed_def setResult_def split: sum.splits)
qed

lemma run_launched: "launched (run h s) = launched (snd (runBody h s))"
  by (cases "runBody h s")
     (auto simp: run_def setResultFailed_def setResult_def split: sum.splits)

lemma run_variables: "variables (run h s) = variables (snd (runBody h s))"
  by (cases "runBody h s")
     (auto simp: run_def setResultFailed_def setResult_def split: sum.splits)

lemma runBody_configuration_throws:
  "getBuildConfiguration h s = Inl e \<Longrightarrow> runBody h s = (Inl e, s)"
  by (simp add: runBody_def)

lemma runBody_editors_throws:
  "getUnityEditorsPath h = Inl e \<Longrightarrow> \<exists>e'. runBody h s = (Inl e', s)"
  by (cases "getBuildConfiguration h s") (simp_all add: runBody_def)

lemma editorVersion_throws_TypeError: "editorVersion content \<noteq> Inl (Error m)"
  by (simp add: editorVersion_def Let_def split: option.splits)

lemma js_split_no_separator: "c \<notin> set s \<Longrightarrow> js_split c s = [s]"
  by (induction s) auto

lemma editorVersion_no_colon:
  "CHR '':'' \<notin> set content \<Longrightarrow>
     editorVersion content =
       Inl (TypeError ''Cannot read properties of undefined (reading 'trim')'')"
  by (simp add: editorVersion_def js_split_no_separator at_index_def)

lemma thenDo_Inr:
  "thenDo m f s = (Inr y, s') \<longleftrightarrow> (\<exists>x s1. m s = (Inr x, s1) \<and> f x s1 = (Inr y, s'))"
  by (auto simp: thenDo_def split: prod.splits sum.splits)

lemma recreateOutputDirectory_success:
  assumes "recreateOutputDirectory h cfg s = (Inr v, s')"
  shows "\<exists>sa.
     sa = (if getVariable s ''Build.Repository.Clean'' = Some ''true''
           then snd (removeSync h (fullBuildOutputPath h cfg) s) else s) \<and>
     mkdirP h (fullBuildOutputPath h cfg) sa = (Inr (), s') \<and>
     fullBuildOutputPath h cfg \<noteq> [] \<and>
     exist h s' (fullBuildOutputPath h cfg) \<and>
     v = variables s ''Build.Repository.LocalPath''"
  using assms
  by (auto simp: recreateOutputDirectory_def Let_def thenDo_Inr succeed_def
        checkPath_def getVariable_def removeSync_def
        split: if_splits)

lemma setBuildOutputPath_success:
  assumes "setBuildOutputPath h cfg v s = (Inr root, s')"
  shows "v = Some root"
    and "s' = s\<lparr>variables := (variables s)
            (''buildOutputPath'' \<mapsto> substr_from (fullBuildOutputPath h cfg) (length root + 1))\<rparr>"
  using assms
  by (auto simp: setBuildOutputPath_def thenDo_Inr succeed_def throw_def setVariable_def
        split: option.splits)

lemma prepareOutputDirectory_variables:
  assumes "prepareOutputDirectory h cfg s = (Inr root, s')"
  shows "variables s ''Build.Repository.LocalPath'' = Some root"
    and "variables s' = (variables s)
            (''buildOutputPath'' \<mapsto> substr_from (fullBuildOutputPath h cfg) (length root + 1))"
proof -
  from assms obtain v s1 where
    first: "recreateOutputDirectory h cfg s = (Inr v, s1)" and
    second: "setBuildOutputPath h cfg v s1 = (Inr root, s')"
    by (auto simp: prepareOutputDirectory_def thenDo_Inr)
  from recreateOutputDirectory_success [OF first]
  have v: "v = variables s ''Build.Repository.LocalPath''" by blast
  with setBuildOutputPath_success(1) [OF second]
  show "variables s ''Build.Repository.LocalPath'' = Some root" by simp
  have "variables s1 = variables s"
    using keepsD [OF keeps_recreateOutputDirectory(4) first] .
  with setBuildOutputPath_success(2) [OF second]
  show "variables s' = (variables s)
            (''buildOutputPath'' \<mapsto> substr_from (fullBuildOutputPath h cfg) (length root + 1))"
    by simp
qed

lemma execSync_effect:
  "launched (snd (execSync h cmd s)) = launched s @ [cmd]"
  "variables (snd (execSync h cmd s)) = variables s"
  by (simp_all add: execSync_def Let_def split: prod.splits option.splits)

lemma runBody_after_configuration:
  assumes "getBuildConfiguration h s = Inr cfg" and "getUnityEditorsPath h = Inr editors"
  shows "runBody h s =
     thenDo (checkPath h (unityEditorDirectory h editors cfg) ''Unity Editor Directory'') (\<lambda>_.
     thenDo (prepareOutputDirectory h cfg) (\<lambda>root.
     thenDo (buildCommand h cfg (unityEditorDirectory h editors cfg) root) (execSync h))) s"
  using assms by (simp add: runBody_def Let_def)

lemma runBody_cases:
  "launched (snd (runBody h s)) = launched s \<or>
   (\<exists>cfg editors root s1 cmd s2.
      getBuildConfiguration h s = Inr cfg \<and>
      getUnityEditorsPath h = Inr editors \<and>
      prepareOutputDirectory h cfg s = (Inr root, s1) \<and>
      buildCommand h cfg (unityEditorDirectory h editors cfg) root s1 = (Inr cmd, s2) \<and>
      launched (snd (runBody h s)) = launched s @ [cmd] \<and>
      variables (snd (runBody h s)) = variables s2)"
proof (cases "getBuildConfiguration h s")
  case (Inl e)
  then show ?thesis by (simp add: runBody_def)
next
  case cfg: (Inr cfg)
  show ?thesis
  proof (cases "getUnityEditorsPath h")
    case (Inl e)
    with cfg show ?thesis by (simp add: runBody_def)
  next
    case editors: (Inr editors)
    let ?d = "unityEditorDirectory h editors cfg"
    note body = runBody_after_configuration [OF cfg editors]
    obtain r0 s0 where chk: "checkPath h ?d ''Unity Editor Directory'' s = (r0, s0)"
      by (cases "checkPath h ?d ''Unity Editor Directory'' s")
    then have s0: "s0 = s" by (rule checkPath_state)
    obtain r1 s1 where prep: "prepareOutputDirectory h cfg s = (r1, s1)"
      by (cases "prepareOutputDirectory h cfg s")
    have l1: "launched s1 = launched s"
      using keepsD [OF keeps_prepareOutputDirectory(1) prep] .
    show ?thesis
    proof (cases r0)
      case (Inl e)
      with chk s0 show ?thesis by (simp add: body thenDo_def)
    next
      case r0: (Inr u)
      with chk s0 have chk': "checkPath h ?d ''Unity Editor Directory'' s = (Inr u, s)"
        by simp
      show ?thesis
      proof (cases r1)
        case (Inl e)
        with prep have "prepareOutputDirectory h cfg s = (Inl e, s1)" by simp
        with l1 show ?thesis
          by (simp add: body thenDo_def chk')
      next
        case root: (Inr root)
        with prep have prep': "prepareOutputDirectory h cfg s = (Inr root, s1)" by simp
        obtain r2 s2 where bc: "buildCommand h cfg ?d root s1 = (r2, s2)"
          by (cases "buildCommand h cfg ?d root s1")
        have l2: "launched s2 = launched s1"
          using keepsD [OF keeps_buildCommand(1) bc] .
        show ?thesis
        proof (cases r2)
          case (Inl e)
          with bc have "buildCommand h cfg ?d root s1 = (Inl e, s2)" by simp
          with l1 l2 show ?thesis
            by (simp add: body thenDo_def chk' prep')
        next
          case cmd: (Inr cmd)
          with bc have bc': "buildCommand h cfg ?d root s1 = (Inr cmd, s2)" by simp
          have "runBody h s = execSync h cmd s2"
            by (simp add: body thenDo_def chk' prep' bc')
          with cfg editors prep' bc' l1 l2 show ?thesis
            by (simp add: execSync_effect)
        qed
      qed
    qed
  qed
qed

lemma run_launched_command:
  assumes "launched (run h s) = launched s @ [cmd]"
  shows "\<exists>cfg editors root s1 s2.
      getBuildConfiguration h s = Inr cfg \<and>
      getUnityEditorsPath h = Inr editors \<and>
      prepareOutputDirectory h cfg s = (Inr root, s1) \<and>
      buildCommand h cfg (unityEditorDirectory h editors cfg) root s1 = (Inr cmd, s2) \<and>
      variables (run h s) = variables s2"
  using assms runBody_cases [of h s] by (auto simp: run_launched run_variables)

lemma getBuildConfiguration_target_input:
  assumes "getBuildConfiguration h s = Inr cfg"
  shows "\<exists>t. inputs h ''buildTarget'' = Some t \<and> t \<noteq> []"
proof (cases "getInput h ''buildTarget'' True")
  case (Inl e)
  then have "getBuildConfiguration h s = Inl e"
    by (simp add: getBuildConfiguration_def)
  with assms show ?thesis by simp
next
  case (Inr v)
  then show ?thesis
    by (cases "inputs h ''buildTarget''") (auto simp: getInput_def split: if_splits)
qed

lemma getBuildConfiguration_fields:
  assumes "getBuildConfiguration h s = Inr cfg"
  shows "\<exists>t. inputs h ''buildTarget'' = Some t \<and> buildTarget cfg = UnityBuildTarget h t"
    and "projectPath cfg = inputs h ''unityProjectPath''"
proof -
  from getBuildConfiguration_target_input [OF assms] obtain t
    where t: "inputs h ''buildTarget'' = Some t" and "t \<noteq> []" by blast
  then have target: "getInput h ''buildTarget'' True = Inr (Some t)"
    by (simp add: getInput_def)
  from assms have "buildTarget cfg = UnityBuildTarget h t"
    by (auto simp: getBuildConfiguration_def target Let_def bindE_def
          split: sum.splits if_splits)
  with t show "\<exists>t. inputs h ''buildTarget'' = Some t \<and> buildTarget cfg = UnityBuildTarget h t"
    by blast
  from assms show "projectPath cfg = inputs h ''unityProjectPath''"
    by (auto simp: getBuildConfiguration_def target Let_def bindE_def getPathInput_def
          split: sum.splits if_splits)
qed

lemma buildCommand_custom:
  assumes "inputs h ''commandLineArgumentsMode'' = Some ''custom''"
    and "buildCommand h cfg d root s = (Inr (tool, args), s')"
  shows "args = mandatoryArguments h cfg @
     [Line (ofOption (inputs h ''customCommandLineArguments''))]"
  using assms
  by (auto simp: buildCommand_def getInput_required Let_def thenDo_Inr succeed_def)

lemma logFileArguments_cases:
  "logFileArguments h root s =
     (case inputs h ''logFileName'' of
        None \<Rightarrow> (Inr [], s)
      | Some name \<Rightarrow>
          if name = [] then (Inr [], s)
          else (Inr [Arg (Str ''-logfile''), Arg (Str (path_join h [root, name]))],
                s\<lparr>variables := (variables s)
                    (''editorLogFilePath'' \<mapsto> path_join h [root, name])\<rparr>))"
  by (simp add: logFileArguments_def thenDo_def lift_def succeed_def setVariable_def Let_def
        split: option.splits)

lemma buildCommand_default:
  assumes "inputs h ''commandLineArgumentsMode'' = Some ''default''"
    and "buildCommand h cfg d root s = (Inr (tool, args), s')"
  shows "\<exists>s1 logArgs.
     injectBuildScript h cfg s = (Inr (), s1) \<and>
     logFileArguments h root s1 = (Inr logArgs, s') \<and>
     args = mandatoryArguments h cfg @ defaultFlags h @
       [Arg (Str ''-executeMethod''), Arg (Str ''AzureDevOps.PerformBuild'')] @ logArgs"
proof -
  from assms(2) obtain toolPath s0 where
    located: "tl_tool h (unityExecutablePath h d) s = (Inr toolPath, s0)" and
    rest: "thenDo (lift (\<lambda>_. getInput h ''commandLineArgumentsMode'' True)) (\<lambda>mode.
           if mode = Some ''default''
           then thenDo (injectBuildScript h cfg) (\<lambda>_.
                thenDo (logFileArguments h root) (\<lambda>logArgs.
                succeed (toolPath, mandatoryArguments h cfg @ defaultFlags h @
                   [Arg (Str ''-executeMethod''), Arg (Str ''AzureDevOps.PerformBuild'')] @
                   logArgs)))
           else thenDo (lift (\<lambda>_. getInput h ''customCommandLineArguments'' False))
                  (\<lambda>custom. succeed (toolPath, mandatoryArguments h cfg @
                     [Line (ofOption custom)]))) s0 = (Inr (tool, args), s')"
    by (auto simp: buildCommand_def Let_def thenDo_Inr)
  from tl_tool_state [OF located] have "s0 = s" .
  with rest assms(1) show ?thesis
    by (auto simp: getInput_required thenDo_Inr succeed_def)
qed

lemma missing_dirs_created:
  "missing_dirs fs r = Inr stack \<Longrightarrow>
     make_dirs stack fs (rev r) = Some Dir \<and> (\<forall>k \<in> set stack. prefix k (rev r))"
proof (induction r arbitrary: stack)
  case Nil
  then show ?case
    by (auto simp: make_dirs_def split: option.splits node.splits)
next
  case (Cons x r)
  show ?case
  proof (cases "fs (rev (x # r))")
    case None
    with Cons.prems obtain stack' where
      rest: "missing_dirs fs r = Inr stack'" and stack: "stack = rev (x # r) # stack'"
      by (auto split: sum.splits)
    from Cons.IH [OF rest] have "\<forall>k \<in> set stack'. prefix k (rev r)" by simp
    then have "\<forall>k \<in> set stack'. prefix k (rev (x # r))"
      by (auto intro: prefix_order.trans)
    with stack show ?thesis by (simp add: make_dirs_def)
  next
    case (Some n)
    with Cons.prems show ?thesis
      by (cases n) (auto simp: make_dirs_def)
  qed
qed

lemma mkdirP_created:
  assumes "mkdirP h p s = (Inr u, s')"
  shows "files s' (path_resolve h (cwd s) p) = Some Dir"
    and "\<not> prefix k (path_resolve h (cwd s) p) \<Longrightarrow> files s' k = files s k"
    and "cwd s' = cwd s"
proof -
  let ?l = "path_resolve h (cwd s) p"
  from assms obtain stack where
    stack: "missing_dirs (files s) (rev ?l) = Inr stack" and
    s': "s' = s\<lparr>files := make_dirs stack (files s)\<rparr>"
    by (auto simp: mkdirP_def split: if_splits sum.splits)
  from missing_dirs_created [OF stack]
  have dir: "make_dirs stack (files s) ?l = Some Dir" and pre: "\<forall>k \<in> set stack. prefix k ?l"
    by simp_all
  from dir s' show "files s' ?l = Some Dir" by simp
  from s' show "cwd s' = cwd s" by simp
  assume "\<not> prefix k ?l"
  with pre have "k \<notin> set stack" by blast
  with s' show "files s' k = files s k" by (simp add: make_dirs_def)
qed



lemma checkPath_after_mkdirP:
  "mkdirP h p s = (Inr u, s') \<Longrightarrow> checkPath h p name s' = (Inr (), s')"
  using mkdirP_created(1,3) [of h p s u s']
  by (auto simp: checkPath_def exist_def mkdirP_def split: if_splits)

section \<open>Strings: the second field and the trimmed cut\<close>

lemma js_split_unfold:
  "js_split c s =
     takeWhile (\<lambda>x. x \<noteq> c) s #
       (if c \<in> set s then js_split c (drop 1 (dropWhile (\<lambda>x. x \<noteq> c) s)) else [])"
  by (induction s) (auto split: list.splits)

lemma js_split_second:
  assumes "c \<in> set s"
  shows "at_index (js_split c s) 1 =
     Some (takeWhile (\<lambda>x. x \<noteq> c) (drop 1 (dropWhile (\<lambda>x. x \<noteq> c) s)))"
proof -
  let ?rest = "drop 1 (dropWhile (\<lambda>x. x \<noteq> c) s)"
  have "js_split c s = takeWhile (\<lambda>x. x \<noteq> c) s # js_split c ?rest"
    using assms js_split_unfold [of c s] by simp
  also have "js_split c ?rest = takeWhile (\<lambda>x. x \<noteq> c) ?rest #
      (if c \<in> set ?rest then js_split c (drop 1 (dropWhile (\<lambda>x. x \<noteq> c) ?rest)) else [])"
    by (rule js_split_unfold)
  finally show ?thesis by (simp add: at_index_def)
qed

lemma indexOf_lower: "- 1 \<le> indexOf s m"
  by (induction s) (auto simp: Let_def)

lemma indexOf_upper: "indexOf s m \<le> int (length s)"
  by (induction s) (auto simp: Let_def)

lemma prefix_append_blank:
  assumes "\<forall>c \<in> set m. \<not> P c" and "\<forall>c \<in> set w. P c"
  shows "prefix m (a @ w) \<longleftrightarrow> prefix m a"
proof
  assume "prefix m (a @ w)"
  then have "prefix m a \<or> (\<exists>u. u \<noteq> [] \<and> prefix u w \<and> m = a @ u)"
    by (auto simp: prefix_append)
  then show "prefix m a"
  proof
    assume "\<exists>u. u \<noteq> [] \<and> prefix u w \<and> m = a @ u"
    then obtain u where u: "u \<noteq> []" "prefix u w" "m = a @ u" by blast
    from u(1) have "hd u \<in> set u" by simp
    with u(2,3) have "hd u \<in> set w" "hd u \<in> set m"
      using set_mono_prefix [of u w] by auto
    with assms show ?thesis by blast
  qed
next
  assume "prefix m a"
  then show "prefix m (a @ w)" by (rule prefix_prefix)
qed

lemma indexOf_leading_blank:
  assumes "m \<noteq> []" and "\<forall>c \<in> set m. \<not> P c" and "\<forall>c \<in> set w. P c"
  shows "indexOf (w @ g) m = (if indexOf g m < 0 then - 1 else int (length w) + indexOf g m)"
  using assms(3)
proof (induction w)
  case Nil
  show ?case using indexOf_lower [of g m] by simp
next
  case (Cons x w)
  have "\<not> prefix m (x # w @ g)"
  proof
    assume "prefix m (x # w @ g)"
    with assms(1) have "hd m = x" by (cases m) auto
    with assms(1,2) Cons.prems show False by (cases m) auto
  qed
  with Cons show ?case by (simp add: Let_def)
qed

lemma indexOf_trailing_blank:
  assumes "m \<noteq> []" and "\<forall>c \<in> set m. \<not> P c" and "\<forall>c \<in> set w. P c"
  shows "indexOf (k @ w) m = indexOf k m"
proof (induction k)
  case Nil
  have "indexOf w m = - 1"
    using assms(3)
  proof (induction w)
    case Nil
    with assms(1) show ?case by simp
  next
    case (Cons x w)
    have "\<not> prefix m (x # w)"
    proof
      assume "prefix m (x # w)"
      with assms(1) have "hd m = x" by (cases m) auto
      with assms(1,2) Cons.prems show False by (cases m) auto
    qed
    with Cons show ?case by (simp add: Let_def)
  qed
  with assms(1) show ?case by simp
next
  case (Cons x k)
  have "prefix m ((x # k) @ w) \<longleftrightarrow> prefix m (x # k)"
    by (rule prefix_append_blank [OF assms(2,3)])
  with Cons show ?case by (simp add: Let_def)
qed

lemma trim_decompose:
  "\<exists>w w'. s = w @ trim s @ w' \<and> (\<forall>c \<in> set w. isWhiteSpace c) \<and> (\<forall>c \<in> set w'. isWhiteSpace c)"
proof -
  let ?g = "dropWhile isWhiteSpace s"
  let ?w = "takeWhile isWhiteSpace s"
  let ?w' = "rev (takeWhile isWhiteSpace (rev ?g))"
  have "rev (takeWhile isWhiteSpace (rev ?g) @ dropWhile isWhiteSpace (rev ?g)) = rev (rev ?g)"
    by (simp only: takeWhile_dropWhile_id)
  then have "rev (dropWhile isWhiteSpace (rev ?g)) @ rev (takeWhile isWhiteSpace (rev ?g)) = ?g"
    by (simp only: rev_append rev_rev_ident)
  then have g: "?g = trim s @ ?w'"
    by (simp only: trim_def)
  have "s = ?w @ ?g" by simp
  with g have "s = ?w @ trim s @ ?w'" by simp
  moreover have "\<forall>c \<in> set ?w. isWhiteSpace c"
    by (auto dest: set_takeWhileD)
  moreover have "\<forall>c \<in> set ?w'. isWhiteSpace c"
    by (auto dest: set_takeWhileD)
  ultimately show ?thesis by blast
qed

lemma trim_leading_blank:
  "\<forall>c \<in> set w. isWhiteSpace c \<Longrightarrow> trim (w @ t) = trim t"
  by (simp add: trim_def dropWhile_append2)

lemma marker_not_blank: "\<forall>c \<in> set ''m_EditorVersionWithRevision''. \<not> isWhiteSpace c"
  by (simp add: isWhiteSpace_def)

lemma cutAtRevisionMarker_trim:
  "cutAtRevisionMarker f =
     (let unityVersion = trim f;
          revisionVersionIndex = indexOf unityVersion ''m_EditorVersionWithRevision''
      in if revisionVersionIndex > - 1
         then trim (substr unityVersion 0 (nat revisionVersionIndex))
         else unityVersion)"
proof -
  let ?m = "''m_EditorVersionWithRevision''"
  let ?v = "trim f"
  from trim_decompose [of f] obtain w w' where
    f: "f = w @ ?v @ w'" and w: "\<forall>c \<in> set w. isWhiteSpace c" and w': "\<forall>c \<in> set w'. isWhiteSpace c"
    by blast
  have m: "?m \<noteq> []" by simp
  have tail: "indexOf (?v @ w') ?m = indexOf ?v ?m"
    by (rule indexOf_trailing_blank [OF m marker_not_blank w'])
  have "indexOf (w @ (?v @ w')) ?m =
      (if indexOf (?v @ w') ?m < 0 then - 1 else int (length w) + indexOf (?v @ w') ?m)"
    by (rule indexOf_leading_blank [OF m marker_not_blank w])
  with f tail have whole: "indexOf f ?m =
      (if indexOf ?v ?m < 0 then - 1 else int (length w) + indexOf ?v ?m)"
    by simp
  show ?thesis
  proof (cases "indexOf ?v ?m < 0")
    case True
    with whole show ?thesis by (simp add: cutAtRevisionMarker_def Let_def)
  next
    case False
    define i where "i = nat (indexOf ?v ?m)"
    from False have iv: "indexOf ?v ?m = int i" by (simp add: i_def)
    from indexOf_upper [of ?v ?m] iv have bound: "i \<le> length ?v" by simp
    from whole iv have "nat (indexOf f ?m) = length w + i" by simp
    moreover have "take (length w + i) (w @ ?v @ w') = w @ take i ?v"
      using bound by simp
    ultimately have "take (nat (indexOf f ?m)) f = w @ take i ?v"
      using f by metis
    then have "trim (take (nat (indexOf f ?m)) f) = trim (take i ?v)"
      by (simp add: trim_leading_blank [OF w])
    with whole iv show ?thesis
      by (simp add: cutAtRevisionMarker_def Let_def substr_def)
  qed
qed

section \<open>The claims\<close>

text \<open>
  C1. Whatever a stage throws is caught at the top level and becomes the one \<^verbatim>\<open>Failed\<close>
  result with the error's message; a run in which no stage throws ends with a
  \<^verbatim>\<open>Succeeded\<close> result. The first half holds (\<open>run_result\<close>). The second does not:
  \<^verbatim>\<open>setResultSucceeded\<close> is declared and never called. On the example agent, whose disk
  holds the project, the editor's directory and its executable, no stage throws, the
  editor is launched, and the run ends with no result at all.
\<close>

theorem run_without_throw_sets_no_result:
  "files example_state
     [''Applications'', ''Unity'', ''Hub'', ''Editor'', ''2021.3.1f1'', ''Unity.app'',
      ''Contents'', ''MacOS'', ''Unity''] = Some (File ''Mach-O'') \<and>
   fst (runBody example_host example_state) = Inr () \<and>
   launched (run example_host example_state) =
     [(''/Applications/Unity/Hub/Editor/2021.3.1f1/Unity.app/Contents/MacOS/Unity'',
       [Arg (Str ''-batchmode''), Arg (Str ''-buildTarget''), Arg (Str ''Android''),
        Arg (Str ''-projectPath''), Arg (Str ''/repo/proj''), Arg (Str ''-nographics''),
        Arg (Str ''-executeMethod''), Arg (Str ''AzureDevOps.PerformBuild''),
        Arg (Str ''-logfile''), Arg (Str ''/repo/build.log'')])] \<and>
   result example_state = None \<and>
   result (run example_host example_state) = None \<and>
   result (setResultSucceeded [] (run example_host example_state)) = Some (Succeeded, [])"
  by code_simp

text \<open>
  C2. The variable \<^verbatim>\<open>buildOutputPath\<close> is said to be the full build output path expressed
  relative to the repository root for every project path, also outside the root. Line 35
  only drops the first \<open>length root + 1\<close> characters: for the project \<^verbatim>\<open>/other/proj\<close> and
  the root \<^verbatim>\<open>/repo\<close> the variable is \<^verbatim>\<open>/proj/Build\<close>, which joined to the root is not
  \<^verbatim>\<open>/other/proj/Build\<close>.
\<close>

theorem buildOutputPath_not_relative:
  "getBuildConfiguration outside_host example_state = Inr outside_configuration \<and>
   variables example_state ''Build.Repository.LocalPath'' = Some ''/repo'' \<and>
   fullBuildOutputPath outside_host outside_configuration = ''/other/proj/Build'' \<and>
   variables (run outside_host example_state) ''buildOutputPath'' = Some ''/proj/Build'' \<and>
   \<not> expressedRelativeTo outside_host ''/repo'' ''/proj/Build'' ''/other/proj/Build''"
  by code_simp

text \<open>
  C2, as amended. When the preparation of the output directory completes, the variable
  is the full build output path without its first \<open>length root + 1\<close> characters, where
  the root is the value of \<^verbatim>\<open>Build.Repository.LocalPath\<close>. Whenever the full path is the
  join of the root and a path, and that join is the root, one character and the path, the
  variable is that path: the full path expressed relative to the root.
\<close>

theorem buildOutputPath_value:
  assumes "fst (prepareOutputDirectory h cfg s) = Inr root"
  shows "variables s ''Build.Repository.LocalPath'' = Some root \<and>
     variables (snd (prepareOutputDirectory h cfg s)) ''buildOutputPath'' =
       Some (drop (length root + 1) (fullBuildOutputPath h cfg)) \<and>
     (\<forall>sep rel.
        fullBuildOutputPath h cfg = path_join h [root, rel] \<and>
        path_join h [root, rel] = root @ sep # rel \<longrightarrow>
          variables (snd (prepareOutputDirectory h cfg s)) ''buildOutputPath'' = Some rel \<and>
          expressedRelativeTo h root rel (fullBuildOutputPath h cfg))"
proof -
  from assms have "prepareOutputDirectory h cfg s =
      (Inr root, snd (prepareOutputDirectory h cfg s))"
    by (cases "prepareOutputDirectory h cfg s") simp
  from prepareOutputDirectory_variables [OF this] show ?thesis
    by (simp add: substr_from_def expressedRelativeTo_def)
qed

theorem buildOutputPath_value_witness:
  "fst (prepareOutputDirectory example_host example_configuration example_state) = Inr ''/repo'' \<and>
   fullBuildOutputPath example_host example_configuration =
     path_join example_host [''/repo'', ''proj/Build''] \<and>
   path_join example_host [''/repo'', ''proj/Build''] = ''/repo'' @ CHR ''/'' # ''proj/Build'' \<and>
   variables (snd (prepareOutputDirectory example_host example_configuration example_state))
     ''buildOutputPath'' = Some ''proj/Build'' \<and>
   expressedRelativeTo example_host ''/repo'' ''proj/Build''
     (fullBuildOutputPath example_host example_configuration)"
proof -
  have ok: "fst (prepareOutputDirectory example_host example_configuration example_state) =
      Inr ''/repo''"
    by code_simp
  have full: "fullBuildOutputPath example_host example_configuration =
      path_join example_host [''/repo'', ''proj/Build'']"
    by code_simp
  have joined: "path_join example_host [''/repo'', ''proj/Build''] =
      ''/repo'' @ CHR ''/'' # ''proj/Build''"
    by code_simp
  from buildOutputPath_value [OF ok] full joined
  have "variables (snd (prepareOutputDirectory example_host example_configuration example_state))
     ''buildOutputPath'' = Some ''proj/Build'' \<and>
     expressedRelativeTo example_host ''/repo'' ''proj/Build''
       (fullBuildOutputPath example_host example_configuration)"
    by blast
  with ok full joined show ?thesis by simp
qed

text \<open>
  C3. \<^verbatim>\<open>getBuildConfiguration\<close> throws when the build target resolves to
  \<^verbatim>\<open>WindowsStoreApps\<close> and the platform is not \<^verbatim>\<open>win32\<close>. For a target that resolves to
  anything else it never throws the platform's error, and its outcome is the same on
  every platform.
\<close>

theorem windows_only_target:
  "(platform h \<noteq> ''win32'' \<and> inputs h ''buildTarget'' = Some t \<and>
    UnityBuildTarget h t = UnityBuildTarget h ''WindowsStoreApps'' \<longrightarrow>
      isl (getBuildConfiguration h s)) \<and>
   (inputs h ''buildTarget'' = Some t \<and>
    UnityBuildTarget h t \<noteq> UnityBuildTarget h ''WindowsStoreApps'' \<longrightarrow>
      getBuildConfiguration h s \<noteq> Inl (Error ''Cannot build an UWP project on a Mac.'') \<and>
      getBuildConfiguration (h\<lparr>platform := p\<rparr>) s = getBuildConfiguration h s)"
  by (auto simp: getBuildConfiguration_def getInput_required getPathInput_def getBoolInput_def
        readFileSync_def Let_def bindE_def editorVersion_throws_TypeError
        split: sum.splits option.splits node.splits)

theorem windows_only_target_witness:
  "platform example_host \<noteq> ''win32'' \<and>
   inputs (with_input ''buildTarget'' ''WindowsStoreApps'' example_host) ''buildTarget'' =
     Some ''WindowsStoreApps'' \<and>
   isl (getBuildConfiguration (with_input ''buildTarget'' ''WindowsStoreApps'' example_host)
     example_state) \<and>
   inputs example_host ''buildTarget'' = Some ''Android'' \<and>
   UnityBuildTarget example_host ''Android'' \<noteq>
     UnityBuildTarget example_host ''WindowsStoreApps'' \<and>
   getBuildConfiguration (example_host\<lparr>platform := ''win32''\<rparr>) example_state =
     getBuildConfiguration example_host example_state \<and>
   \<not> isl (getBuildConfiguration example_host example_state)"
proof -
  let ?w = "with_input ''buildTarget'' ''WindowsStoreApps'' example_host"
  have a: "platform ?w \<noteq> ''win32''" "platform example_host \<noteq> ''win32''"
    by (simp_all add: with_input_def example_host_def)
  have b: "inputs ?w ''buildTarget'' = Some ''WindowsStoreApps''"
    by (simp add: with_input_def)
  have c: "inputs example_host ''buildTarget'' = Some ''Android''"
    by (simp add: example_host_def)
  have d: "UnityBuildTarget example_host ''Android'' \<noteq>
      UnityBuildTarget example_host ''WindowsStoreApps''"
    by (simp add: example_host_def numericEnum_def)
  have e: "\<not> isl (getBuildConfiguration example_host example_state)"
    by code_simp
  from windows_only_target [of ?w "''WindowsStoreApps''" example_state]
    windows_only_target [of example_host "''Android''" example_state "''win32''"] a b c d e
  show ?thesis by simp
qed

text \<open>
  C4. The version is said to be cut out of the whole text after the first \<^verbatim>\<open>:\<close>. The
  script takes \<^verbatim>\<open>split(':')[1]\<close>, which ends at the second \<^verbatim>\<open>:\<close>: for the content
  \<^verbatim>\<open>v:1:2\<close>, which has no marker, the version is \<^verbatim>\<open>1\<close> and not \<^verbatim>\<open>1:2\<close>.
\<close>

theorem editorVersion_whole_rest_counterexample:
  "CHR '':'' \<in> set ''v:1:2'' \<and>
   indexOf (afterFirstColon ''v:1:2'') ''m_EditorVersionWithRevision'' = - 1 \<and>
   editorVersion ''v:1:2'' = Inr ''1'' \<and>
   cutAtRevisionMarker (afterFirstColon ''v:1:2'') = ''1:2''"
  by code_simp

text \<open>
  C4, as amended. For every content with a \<^verbatim>\<open>:\<close>, the version is made of the text between
  the first \<^verbatim>\<open>:\<close> and the next one (or the end): when that text contains the marker
  \<^verbatim>\<open>m_EditorVersionWithRevision\<close>, the part before the marker, trimmed; otherwise all of
  it, trimmed.
\<close>

theorem editorVersion_second_field:
  assumes "CHR '':'' \<in> set content"
  shows "editorVersion content = Inr (cutAtRevisionMarker (secondField content))"
proof -
  from js_split_second [OF assms]
  have "at_index (js_split CHR '':'' content) 1 = Some (secondField content)"
    by (simp add: secondField_def afterFirstColon_def)
  then show ?thesis
    by (simp add: editorVersion_def cutAtRevisionMarker_trim Let_def)
qed

theorem editorVersion_second_field_witness:
  "CHR '':'' \<in> set versionFile \<and>
   secondField versionFile = '' 2021.3.1f1'' @ [CHR 0x0A] @ ''m_EditorVersionWithRevision'' \<and>
   editorVersion versionFile = Inr ''2021.3.1f1'' \<and>
   CHR '':'' \<in> set ''m_EditorVersion: 2021.3.1f1 '' \<and>
   editorVersion ''m_EditorVersion: 2021.3.1f1 '' = Inr ''2021.3.1f1''"
proof -
  have a: "CHR '':'' \<in> set versionFile" "CHR '':'' \<in> set ''m_EditorVersion: 2021.3.1f1 ''"
    by (simp_all add: versionFile_def)
  have b: "secondField versionFile =
      '' 2021.3.1f1'' @ [CHR 0x0A] @ ''m_EditorVersionWithRevision''"
    by code_simp
  have c: "cutAtRevisionMarker (secondField versionFile) = ''2021.3.1f1''"
    "cutAtRevisionMarker (secondField ''m_EditorVersion: 2021.3.1f1 '') = ''2021.3.1f1''"
    by code_simp+
  from editorVersion_second_field [OF a(1)] editorVersion_second_field [OF a(2)] a b c
  show ?thesis by simp
qed

text \<open>
  C5. When \<^verbatim>\<open>commandLineArgumentsMode\<close> is \<^verbatim>\<open>custom\<close>, the command the editor is launched
  with is \<^verbatim>\<open>-batchmode\<close>, \<^verbatim>\<open>-buildTarget\<close> with the target's name, \<^verbatim>\<open>-projectPath\<close> with the
  project path, then the custom argument string as one line, and nothing else, whatever
  the flag inputs and the log file input are.
\<close>

theorem custom_arguments:
  assumes "inputs h ''commandLineArgumentsMode'' = Some ''custom''"
    and "launched (run h s) = launched s @ [(tool, args)]"
  shows "\<exists>t. inputs h ''buildTarget'' = Some t \<and>
     args = [Arg (Str ''-batchmode''),
             Arg (Str ''-buildTarget''), Arg (UnityBuildTarget h (toPropertyKey (UnityBuildTarget h t))),
             Arg (Str ''-projectPath''), Arg (ofOption (inputs h ''unityProjectPath'')),
             Line (ofOption (inputs h ''customCommandLineArguments''))]"
proof -
  from run_launched_command [OF assms(2)] obtain cfg editors root s1 s2 where
    cfg: "getBuildConfiguration h s = Inr cfg" and
    bc: "buildCommand h cfg (unityEditorDirectory h editors cfg) root s1 = (Inr (tool, args), s2)"
    by blast
  have args: "args = mandatoryArguments h cfg @
      [Line (ofOption (inputs h ''customCommandLineArguments''))]"
    by (rule buildCommand_custom [OF assms(1) bc])
  from getBuildConfiguration_fields [OF cfg] obtain t where
    "inputs h ''buildTarget'' = Some t" "buildTarget cfg = UnityBuildTarget h t"
    "projectPath cfg = inputs h ''unityProjectPath''"
    by blast
  with args show ?thesis by (simp add: mandatoryArguments_def)
qed

theorem custom_arguments_witness:
  "inputs custom_host ''commandLineArgumentsMode'' = Some ''custom'' \<and>
   launched (run custom_host example_state) = launched example_state @
     [(''/Applications/Unity/Hub/Editor/2021.3.1f1/Unity.app/Contents/MacOS/Unity'',
       [Arg (Str ''-batchmode''),
        Arg (Str ''-buildTarget''), Arg (Str ''Android''),
        Arg (Str ''-projectPath''), Arg (Str ''/repo/proj''),
        Line (Str ''-quit -batchmode'')])] \<and>
   inputs custom_host ''noGraphics'' = Some ''true'' \<and>
   inputs custom_host ''logFileName'' = Some ''build.log''"
proof -
  let ?args = "[Arg (Str ''-batchmode''),
        Arg (Str ''-buildTarget''), Arg (Str ''Android''),
        Arg (Str ''-projectPath''), Arg (Str ''/repo/proj''),
        Line (Str ''-quit -batchmode'')]"
  have mode: "inputs custom_host ''commandLineArgumentsMode'' = Some ''custom''"
    by (simp add: custom_host_def with_input_def)
  have ran: "launched (run custom_host example_state) = launched example_state @
     [(''/Applications/Unity/Hub/Editor/2021.3.1f1/Unity.app/Contents/MacOS/Unity'', ?args)]"
    by code_simp
  have others: "inputs custom_host ''noGraphics'' = Some ''true''"
    "inputs custom_host ''logFileName'' = Some ''build.log''"
    by (simp_all add: custom_host_def with_input_def example_host_def)
  from custom_arguments [OF mode ran] mode ran others show ?thesis by simp
qed



text \<open>
  C7. In the mode \<^verbatim>\<open>environmentVariable\<close>, \<^verbatim>\<open>getUnityEditorsPath\<close> throws when
  \<^verbatim>\<open>UNITYHUB_EDITORS_FOLDER_LOCATION\<close> is unset or empty, and the run then fails with no
  process launched; when the variable is a non-empty string, that string is returned.
\<close>

theorem environmentVariable_mode:
  assumes "inputs h ''unityEditorsPathMode'' = Some ''environmentVariable''"
  shows "(UNITYHUB_EDITORS_FOLDER_LOCATION h = None \<or>
          UNITYHUB_EDITORS_FOLDER_LOCATION h = Some [] \<longrightarrow>
            getUnityEditorsPath h = Inl (Error
              ''Expected UNITYHUB_EDITORS_FOLDER_LOCATION environment variable to be set!'') \<and>
            (\<exists>msg. result (run h s) = Some (Failed, msg)) \<and>
            launched (run h s) = launched s) \<and>
         (\<forall>p. UNITYHUB_EDITORS_FOLDER_LOCATION h = Some p \<and> p \<noteq> [] \<longrightarrow>
            getUnityEditorsPath h = Inr p)"
proof (intro conjI impI allI)
  assume unset: "UNITYHUB_EDITORS_FOLDER_LOCATION h = None \<or>
    UNITYHUB_EDITORS_FOLDER_LOCATION h = Some []"
  with assms show thrown: "getUnityEditorsPath h = Inl (Error
      ''Expected UNITYHUB_EDITORS_FOLDER_LOCATION environment variable to be set!'')"
    by (auto simp: getUnityEditorsPath_def getInput_required)
  from runBody_editors_throws [OF thrown]
  obtain e' where body: "runBody h s = (Inl e', s)" by blast
  from body show "\<exists>msg. result (run h s) = Some (Failed, msg)"
    by (simp add: run_result)
  from body show "launched (run h s) = launched s"
    by (simp add: run_launched)
next
  fix p
  assume "UNITYHUB_EDITORS_FOLDER_LOCATION h = Some p \<and> p \<noteq> []"
  with assms show "getUnityEditorsPath h = Inr p"
    by (simp add: getUnityEditorsPath_def getInput_required)
qed

theorem environmentVariable_mode_witness:
  "inputs (with_input ''unityEditorsPathMode'' ''environmentVariable'' example_host)
     ''unityEditorsPathMode'' = Some ''environmentVariable'' \<and>
   UNITYHUB_EDITORS_FOLDER_LOCATION
     (with_input ''unityEditorsPathMode'' ''environmentVariable'' example_host) = None \<and>
   result (run (with_input ''unityEditorsPathMode'' ''environmentVariable'' example_host)
     example_state) \<noteq> None \<and>
   launched (run (with_input ''unityEditorsPathMode'' ''environmentVariable'' example_host)
     example_state) = []"
proof -
  let ?h = "with_input ''unityEditorsPathMode'' ''environmentVariable'' example_host"
  have mode: "inputs ?h ''unityEditorsPathMode'' = Some ''environmentVariable''"
    by (simp add: with_input_def)
  have unset: "UNITYHUB_EDITORS_FOLDER_LOCATION ?h = None"
    by (simp add: with_input_def example_host_def)
  have empty: "launched example_state = []"
    by (simp add: example_state_def)
  from environmentVariable_mode [OF mode, of example_state] mode unset empty
  show ?thesis by auto
qed

text \<open>
  C8. In the default mode, when the editor is launched: with a non-empty \<^verbatim>\<open>logFileName\<close>
  the variable \<^verbatim>\<open>editorLogFilePath\<close> is the repository root joined with the name, and the
  command ends with \<^verbatim>\<open>-logfile\<close> and that path; with no name, or an empty one, the
  command has no such flag and the variable is left as it was.
\<close>

theorem log_file:
  assumes "inputs h ''commandLineArgumentsMode'' = Some ''default''"
    and "launched (run h s) = launched s @ [(tool, args)]"
  shows "\<exists>cfg root.
     getBuildConfiguration h s = Inr cfg \<and>
     variables s ''Build.Repository.LocalPath'' = Some root \<and>
     (\<forall>name. inputs h ''logFileName'' = Some name \<and> name \<noteq> [] \<longrightarrow>
        variables (run h s) ''editorLogFilePath'' = Some (path_join h [root, name]) \<and>
        args = mandatoryArguments h cfg @ defaultFlags h @
          [Arg (Str ''-executeMethod''), Arg (Str ''AzureDevOps.PerformBuild''),
           Arg (Str ''-logfile''), Arg (Str (path_join h [root, name]))]) \<and>
     (inputs h ''logFileName'' = None \<or> inputs h ''logFileName'' = Some [] \<longrightarrow>
        variables (run h s) ''editorLogFilePath'' = variables s ''editorLogFilePath'' \<and>
        args = mandatoryArguments h cfg @ defaultFlags h @
          [Arg (Str ''-executeMethod''), Arg (Str ''AzureDevOps.PerformBuild'')])"
proof -
  from run_launched_command [OF assms(2)] obtain cfg editors root s1 s2 where
    cfg: "getBuildConfiguration h s = Inr cfg" and
    prep: "prepareOutputDirectory h cfg s = (Inr root, s1)" and
    bc: "buildCommand h cfg (unityEditorDirectory h editors cfg) root s1 = (Inr (tool, args), s2)"
    and vars: "variables (run h s) = variables s2"
    by blast
  note root = prepareOutputDirectory_variables [OF prep]
  from buildCommand_default [OF assms(1) bc] obtain s15 logArgs where
    inj: "injectBuildScript h cfg s1 = (Inr (), s15)" and
    lg: "logFileArguments h root s15 = (Inr logArgs, s2)" and
    args: "args = mandatoryArguments h cfg @ defaultFlags h @
       [Arg (Str ''-executeMethod''), Arg (Str ''AzureDevOps.PerformBuild'')] @ logArgs"
    by blast
  have v15: "variables s15 ''editorLogFilePath'' = variables s ''editorLogFilePath''"
    using keepsD [OF keeps_injectBuildScript(3) inj] root(2) by simp
  have given: "\<forall>name. inputs h ''logFileName'' = Some name \<and> name \<noteq> [] \<longrightarrow>
        variables (run h s) ''editorLogFilePath'' = Some (path_join h [root, name]) \<and>
        args = mandatoryArguments h cfg @ defaultFlags h @
          [Arg (Str ''-executeMethod''), Arg (Str ''AzureDevOps.PerformBuild''),
           Arg (Str ''-logfile''), Arg (Str (path_join h [root, name]))]"
    using lg args vars by (auto simp: logFileArguments_cases)
  have absent: "inputs h ''logFileName'' = None \<or> inputs h ''logFileName'' = Some [] \<longrightarrow>
        variables (run h s) ''editorLogFilePath'' = variables s ''editorLogFilePath'' \<and>
        args = mandatoryArguments h cfg @ defaultFlags h @
          [Arg (Str ''-executeMethod''), Arg (Str ''AzureDevOps.PerformBuild'')]"
    using lg args vars v15 by (auto simp: logFileArguments_cases)
  from cfg root(1) given absent show ?thesis by blast
qed

theorem log_file_witness:
  "inputs example_host ''commandLineArgumentsMode'' = Some ''default'' \<and>
   inputs example_host ''logFileName'' = Some ''build.log'' \<and>
   variables example_state ''Build.Repository.LocalPath'' = Some ''/repo'' \<and>
   launched (run example_host example_state) = launched example_state @
     [(''/Applications/Unity/Hub/Editor/2021.3.1f1/Unity.app/Contents/MacOS/Unity'',
       [Arg (Str ''-batchmode''), Arg (Str ''-buildTarget''), Arg (Str ''Android''),
        Arg (Str ''-projectPath''), Arg (Str ''/repo/proj''), Arg (Str ''-nographics''),
        Arg (Str ''-executeMethod''), Arg (Str ''AzureDevOps.PerformBuild''),
        Arg (Str ''-logfile''), Arg (Str ''/repo/build.log'')])] \<and>
   variables (run example_host example_state) ''editorLogFilePath'' = Some ''/repo/build.log'' \<and>
   inputs no_log_host ''logFileName'' = None \<and>
   launched (run no_log_host example_state) = launched example_state @
     [(''/Applications/Unity/Hub/Editor/2021.3.1f1/Unity.app/Contents/MacOS/Unity'',
       [Arg (Str ''-batchmode''), Arg (Str ''-buildTarget''), Arg (Str ''Android''),
        Arg (Str ''-projectPath''), Arg (Str ''/repo/proj''), Arg (Str ''-nographics''),
        Arg (Str ''-executeMethod''), Arg (Str ''AzureDevOps.PerformBuild'')])] \<and>
   variables (run no_log_host example_state) ''editorLogFilePath'' = None \<and>
   inputs no_project_host ''unityProjectPath'' = None \<and>
   launched (run no_project_host example_state_undefined) = launched example_state_undefined @
     [(''/Applications/Unity/Hub/Editor/2021.3.1f1/Unity.app/Contents/MacOS/Unity'',
       [Arg (Str ''-batchmode''), Arg (Str ''-buildTarget''), Arg (Str ''Android''),
        Arg (Str ''-projectPath''), Arg Undefined, Arg (Str ''-nographics''),
        Arg (Str ''-executeMethod''), Arg (Str ''AzureDevOps.PerformBuild''),
        Arg (Str ''-logfile''), Arg (Str ''/repo/build.log'')])] \<and>
   variables (run no_project_host example_state_undefined) ''editorLogFilePath'' =
     Some ''/repo/build.log''"
proof -
  let ?tool = "''/Applications/Unity/Hub/Editor/2021.3.1f1/Unity.app/Contents/MacOS/Unity''"
  let ?front = "[Arg (Str ''-batchmode''), Arg (Str ''-buildTarget''), Arg (Str ''Android''),
        Arg (Str ''-projectPath''), Arg (Str ''/repo/proj''), Arg (Str ''-nographics''),
        Arg (Str ''-executeMethod''), Arg (Str ''AzureDevOps.PerformBuild'')]"
  let ?bare = "[Arg (Str ''-batchmode''), Arg (Str ''-buildTarget''), Arg (Str ''Android''),
        Arg (Str ''-projectPath''), Arg Undefined, Arg (Str ''-nographics''),
        Arg (Str ''-executeMethod''), Arg (Str ''AzureDevOps.PerformBuild''),
        Arg (Str ''-logfile''), Arg (Str ''/repo/build.log'')]"
  have mode: "inputs example_host ''commandLineArgumentsMode'' = Some ''default''"
    "inputs no_log_host ''commandLineArgumentsMode'' = Some ''default''"
    "inputs no_project_host ''commandLineArgumentsMode'' = Some ''default''"
    by (simp_all add: example_host_def no_log_host_def no_project_host_def)
  have name: "inputs example_host ''logFileName'' = Some ''build.log''"
    "inputs no_log_host ''logFileName'' = None"
    "inputs no_project_host ''logFileName'' = Some ''build.log''"
    "inputs no_project_host ''unityProjectPath'' = None"
    by (simp_all add: example_host_def no_log_host_def no_project_host_def)
  have root: "variables example_state ''Build.Repository.LocalPath'' = Some ''/repo''"
    "variables example_state ''editorLogFilePath'' = None"
    "variables example_state_undefined ''Build.Repository.LocalPath'' = Some ''/repo''"
    by (simp_all add: example_state_def example_state_undefined_def)
  have joined: "path_join example_host [''/repo'', ''build.log''] = ''/repo/build.log''"
    "path_join no_project_host [''/repo'', ''build.log''] = ''/repo/build.log''"
    by code_simp+
  have ran: "launched (run example_host example_state) = launched example_state @
     [(?tool, ?front @ [Arg (Str ''-logfile''), Arg (Str ''/repo/build.log'')])]"
    by code_simp
  have ran': "launched (run no_log_host example_state) = launched example_state @
     [(?tool, ?front)]"
    by code_simp
  have ran'': "launched (run no_project_host example_state_undefined) =
      launched example_state_undefined @ [(?tool, ?bare)]"
    by code_simp
  have "variables (run example_host example_state) ''editorLogFilePath'' =
      Some ''/repo/build.log''"
    using log_file [OF mode(1) ran] name(1) root(1) joined(1) by auto
  moreover have "variables (run no_log_host example_state) ''editorLogFilePath'' = None"
    using log_file [OF mode(2) ran'] name(2) root(2) by auto
  moreover have "variables (run no_project_host example_state_undefined) ''editorLogFilePath'' =
      Some ''/repo/build.log''"
    using log_file [OF mode(3) ran''] name(3) root(3) joined(2) by auto
  ultimately show ?thesis
    using mode name root ran ran' ran'' by simp
qed

text \<open>
  C9. \<^verbatim>\<open>getBuildConfiguration\<close> never returns a configuration with an empty version; it
  throws, and the run fails without launching anything, when the content of
  \<^verbatim>\<open>ProjectVersion.txt\<close> has no \<^verbatim>\<open>:\<close> or the version extracted from it is empty.
\<close>

theorem version_required:
  "(getBuildConfiguration h s = Inr cfg \<longrightarrow> unityVersion cfg \<noteq> []) \<and>
   (readFileSync h s (path_join h
        [template (inputs h ''unityProjectPath''), ''ProjectSettings'', ''ProjectVersion.txt''])
      = Inr content \<and>
    (CHR '':'' \<notin> set content \<or> editorVersion content = Inr []) \<longrightarrow>
      isl (getBuildConfiguration h s) \<and>
      (\<exists>msg. result (run h s) = Some (Failed, msg)) \<and>
      launched (run h s) = launched s)"
proof (intro conjI impI)
  assume "getBuildConfiguration h s = Inr cfg"
  then show "unityVersion cfg \<noteq> []"
    by (auto simp: getBuildConfiguration_def Let_def bindE_def
          split: sum.splits if_splits)
next
  assume a: "readFileSync h s (path_join h
        [template (inputs h ''unityProjectPath''), ''ProjectSettings'', ''ProjectVersion.txt''])
      = Inr content \<and>
    (CHR '':'' \<notin> set content \<or> editorVersion content = Inr [])"
  then have "editorVersion content = Inr [] \<or> isl (editorVersion content)"
    using editorVersion_no_colon by auto
  with a show thrown: "isl (getBuildConfiguration h s)"
    by (auto simp: getBuildConfiguration_def Let_def bindE_def getPathInput_def
          split: sum.splits)
  then obtain e where "getBuildConfiguration h s = Inl e"
    by (cases "getBuildConfiguration h s") auto
  then have body: "runBody h s = (Inl e, s)"
    by (rule runBody_configuration_throws)
  from body show "\<exists>msg. result (run h s) = Some (Failed, msg)"
    by (simp add: run_result)
  from body show "launched (run h s) = launched s"
    by (simp add: run_launched)
qed

theorem version_required_witness:
  "readFileSync example_host example_state_no_colon (path_join example_host
        [template (inputs example_host ''unityProjectPath''), ''ProjectSettings'',
         ''ProjectVersion.txt'']) = Inr ''2021.3.1f1'' \<and>
   CHR '':'' \<notin> set ''2021.3.1f1'' \<and>
   isl (getBuildConfiguration example_host example_state_no_colon) \<and>
   (\<exists>msg. result (run example_host example_state_no_colon) = Some (Failed, msg)) \<and>
   launched (run example_host example_state_no_colon) = [] \<and>
   getBuildConfiguration example_host example_state = Inr
     \<lparr>outputFileName = None, developmentBuild = False, buildScenes = None,
      buildTarget = Num 1, projectPath = Some ''/repo/proj'', unityVersion = ''2021.3.1f1''\<rparr> \<and>
   ''2021.3.1f1'' \<noteq> []"
proof -
  have a: "readFileSync example_host example_state_no_colon (path_join example_host
        [template (inputs example_host ''unityProjectPath''), ''ProjectSettings'',
         ''ProjectVersion.txt'']) = Inr ''2021.3.1f1''"
    by code_simp
  have b: "CHR '':'' \<notin> set ''2021.3.1f1''" by simp
  have c: "launched example_state_no_colon = []" by (simp add: example_state_no_colon_def example_state_def)
  have d: "getBuildConfiguration example_host example_state = Inr
     \<lparr>outputFileName = None, developmentBuild = False, buildScenes = None,
      buildTarget = Num 1, projectPath = Some ''/repo/proj'', unityVersion = ''2021.3.1f1''\<rparr>"
    by code_simp
  have "isl (getBuildConfiguration example_host example_state_no_colon) \<and>
      (\<exists>msg. result (run example_host example_state_no_colon) = Some (Failed, msg)) \<and>
      launched (run example_host example_state_no_colon) = launched example_state_no_colon"
    using version_required [of example_host example_state_no_colon _ "''2021.3.1f1''"] a b by blast
  with a b c d show ?thesis by simp
qed

text \<open>
  C10. For every value of \<^verbatim>\<open>unityEditorsPathMode\<close> other than \<^verbatim>\<open>unityHub\<close> and
  \<^verbatim>\<open>environmentVariable\<close>, \<^verbatim>\<open>getUnityEditorsPath\<close> returns the input
  \<^verbatim>\<open>customUnityEditorsPath\<close> when it is non-empty and throws when it is missing or empty;
  in the mode \<^verbatim>\<open>unityHub\<close> it returns the fixed path of the platform, and looks at no
  file.
\<close>

theorem getUnityEditorsPath_modes:
  "(inputs h ''unityEditorsPathMode'' = Some mode \<and> mode \<noteq> [] \<and>
    mode \<noteq> ''unityHub'' \<and> mode \<noteq> ''environmentVariable'' \<longrightarrow>
      getUnityEditorsPath h =
        (case inputs h ''customUnityEditorsPath'' of
           None \<Rightarrow> Inl (Error
             ''Expected custom editors folder location to be set. Please the task configuration.'')
         | Some p \<Rightarrow>
             if p = []
             then Inl (Error
               ''Expected custom editors folder location to be set. Please the task configuration.'')
             else Inr p)) \<and>
   (inputs h ''unityEditorsPathMode'' = Some ''unityHub'' \<longrightarrow>
      getUnityEditorsPath h =
        Inr (if platform h = ''win32''
             then path_join h [''C:'', ''Program Files'', ''Unity'', ''Hub'', ''Editor'']
             else path_join h [''/'', ''Applications'', ''Unity'', ''Hub'', ''Editor'']))"
  by (simp add: getUnityEditorsPath_def getInput_required)

theorem getUnityEditorsPath_modes_witness:
  "getUnityEditorsPath (with_input ''unityEditorsPathMode'' ''somethingElse''
      (with_input ''customUnityEditorsPath'' ''/opt/editors'' example_host)) = Inr ''/opt/editors'' \<and>
   getUnityEditorsPath (with_input ''unityEditorsPathMode'' ''somethingElse'' example_host) =
     Inl (Error ''Expected custom editors folder location to be set. Please the task configuration.'') \<and>
   getUnityEditorsPath example_host = Inr ''/Applications/Unity/Hub/Editor''"
  using getUnityEditorsPath_modes [of "with_input ''unityEditorsPathMode'' ''somethingElse''
           (with_input ''customUnityEditorsPath'' ''/opt/editors'' example_host)" "''somethingElse''"]
    getUnityEditorsPath_modes [of "with_input ''unityEditorsPathMode'' ''somethingElse'' example_host"
      "''somethingElse''"]
    getUnityEditorsPath_modes [of example_host "''unityHub''"]
  by (simp add: with_input_def example_host_def posix_join_def posix_normalize_def)

end
